theory Spec2Isabelle
  imports Main
begin

section \<open>Python values, exceptions and string methods\<close>

text \<open>
  The program is Python. Exceptions are values of \<open>py_error\<close>; a computation that may
  raise returns \<open>py_error + 'a\<close> with \<open>Inl\<close> for the exception. Lines of the protocol
  are ASCII texts, modelled as \<open>string\<close>.
\<close>

datatype py_error =
    ValueError string
  | TypeError
  | AttributeError
  | IndexError
  | KeyError
  | ConnectionError
  | ConnectionAbortedError string

text \<open>Sequencing of two computations: the first exception raised is the result.\<close>

definition and_then :: "py_error + 'a \<Rightarrow> ('a \<Rightarrow> py_error + 'b) \<Rightarrow> py_error + 'b" where
  "and_then r k = (case r of Inl e \<Rightarrow> Inl e | Inr x \<Rightarrow> k x)"

text \<open>
  A value held in a dictionary of the parser: \<open>None\<close>, a \<open>str\<close> or an \<open>int\<close>.
  A \<open>str\<close> method called on \<open>None\<close> or on an \<open>int\<close> raises AttributeError,
  a subscript on them raises TypeError.
\<close>

datatype pyval = PNone | PStr string | PInt int

type_synonym pydict = "string \<rightharpoonup> pyval"

definition item :: "pydict \<Rightarrow> string \<Rightarrow> py_error + pyval" where
  "item d k = (case d k of None \<Rightarrow> Inl KeyError | Some v \<Rightarrow> Inr v)"

definition str_method :: "pyval \<Rightarrow> py_error + string" where
  "str_method v = (case v of PStr s \<Rightarrow> Inr s | _ \<Rightarrow> Inl AttributeError)"

definition str_subscript :: "pyval \<Rightarrow> py_error + string" where
  "str_subscript v = (case v of PStr s \<Rightarrow> Inr s | _ \<Rightarrow> Inl TypeError)"

definition CRLF :: string where
  "CRLF = [CHR 0x0D, CHR 0x0A]"

definition startswith :: "string \<Rightarrow> string \<Rightarrow> bool" where
  "startswith s p = (take (length p) s = p)"

definition endswith :: "string \<Rightarrow> string \<Rightarrow> bool" where
  "endswith s p = (length p \<le> length s \<and> drop (length s - length p) s = p)"

definition lower_char :: "char \<Rightarrow> char" where
  "lower_char c =
     (case map_of (zip ''ABCDEFGHIJKLMNOPQRSTUVWXYZ'' ''abcdefghijklmnopqrstuvwxyz'') c of
        Some l \<Rightarrow> l
      | None \<Rightarrow> c)"

definition lower :: "string \<Rightarrow> string" where
  "lower s = map lower_char s"

definition is_digit :: "char \<Rightarrow> bool" where
  "is_digit c = (c \<in> set ''0123456789'')"

definition is_word :: "char \<Rightarrow> bool" where
  "is_word c =
     (c \<in> set ''abcdefghijklmnopqrstuvwxyzABCDEFGHIJKLMNOPQRSTUVWXYZ0123456789_'')"

text \<open>\<open>str.isdigit\<close>: at least one character, and every character a digit.\<close>

definition isdigit :: "string \<Rightarrow> bool" where
  "isdigit s = (s \<noteq> [] \<and> list_all is_digit s)"

definition digit_val :: "char \<Rightarrow> int" where
  "digit_val c =
     (case map_of (zip ''0123456789'' [0, 1, 2, 3, 4, 5, 6, 7, 8, 9]) c of
        Some d \<Rightarrow> d
      | None \<Rightarrow> 0)"

text \<open>\<open>int(s)\<close> on a string of digits.\<close>

definition int_of_str :: "string \<Rightarrow> int" where
  "int_of_str s = foldl (\<lambda>a c. 10 * a + digit_val c) 0 s"

text \<open>\<open>str(n)\<close> for a natural number, as an f-string formats it.\<close>

fun str_of_nat :: "nat \<Rightarrow> string" where
  "str_of_nat n =
     (if n < 10 then [''0123456789'' ! n]
      else str_of_nat (n div 10) @ [''0123456789'' ! (n mod 10)])"

declare str_of_nat.simps [simp del]

definition format_val :: "pyval \<Rightarrow> string" where
  "format_val v =
     (case v of
        PNone \<Rightarrow> ''None''
      | PStr s \<Rightarrow> s
      | PInt i \<Rightarrow> (if i < 0 then CHR ''-'' # str_of_nat (nat (- i)) else str_of_nat (nat i)))"

text \<open>\<open>s.split(sep)\<close> with a one-character separator: empty fields are kept.\<close>

fun split :: "char \<Rightarrow> string \<Rightarrow> string list" where
  "split sep [] = [[]]"
| "split sep (x # xs) =
     (if x = sep then [] # split sep xs
      else (case split sep xs of
              [] \<Rightarrow> [[x]]
            | w # ws \<Rightarrow> (x # w) # ws))"

text \<open>\<open>s.split(sep, maxsplit)\<close>: at most \<open>maxsplit\<close> cuts, the rest is kept whole.\<close>

fun splitn :: "char \<Rightarrow> nat \<Rightarrow> string \<Rightarrow> string list" where
  "splitn sep 0 s = [s]"
| "splitn sep (Suc n) [] = [[]]"
| "splitn sep (Suc n) (x # xs) =
     (if x = sep then [] # splitn sep n xs
      else (case splitn sep (Suc n) xs of
              [] \<Rightarrow> [[x]]
            | w # ws \<Rightarrow> (x # w) # ws))"

section \<open>The regular expression of the parser\<close>

text \<open>
  \<^verbatim>\<open>PATTERN = re.compile(r'(?:@(?P<tags>.*?) )?:(?:(?P<prefix>.*?) ?) (?P<command>\w+|\d+) (?P<params>.*)')\<close>

  The fragment of Python's regular expressions that the pattern uses, with the
  backtracking semantics of \<open>re\<close>: matching a regex at a position gives the list of
  all ways to match, in the order in which the engine tries them; \<open>re.match\<close> takes the
  first way that completes the whole pattern. A state is the captures made so far
  and the text still to be read.
\<close>

text \<open>
  The classes \<open>.\<close>, \<open>\w\<close> and \<open>\d\<close> on ASCII texts: letters, digits and the
  underscore. On a \<open>str\<close> Python's \<open>\w\<close> and \<open>\d\<close> also take the letters and
  digits of other scripts, which a \<open>char\<close> cannot hold; lines with such characters are
  outside this model.
\<close>

datatype cclass = AnyChar | WordChar | DigitChar

fun in_class :: "cclass \<Rightarrow> char \<Rightarrow> bool" where
  "in_class AnyChar c = (c \<noteq> CHR 0x0A)"
| "in_class WordChar c = is_word c"
| "in_class DigitChar c = is_digit c"

datatype regex =
    Lit char
  | LazyStar cclass
  | GreedyStar cclass
  | GreedyPlus cclass
  | Opt regex
  | Seq regex regex
  | Alt regex regex
  | Group string regex

text \<open>The remainders after reading 0, 1, 2, ... characters of the class.\<close>

fun lazy_star :: "cclass \<Rightarrow> string \<Rightarrow> string list" where
  "lazy_star k [] = [[]]"
| "lazy_star k (x # xs) = (x # xs) # (if in_class k x then lazy_star k xs else [])"

type_synonym captures = "string \<rightharpoonup> string"

fun rx_match :: "regex \<Rightarrow> captures \<times> string \<Rightarrow> (captures \<times> string) list" where
  "rx_match (Lit c) (caps, s) =
     (case s of [] \<Rightarrow> [] | x # xs \<Rightarrow> (if x = c then [(caps, xs)] else []))"
| "rx_match (LazyStar k) (caps, s) = map (Pair caps) (lazy_star k s)"
| "rx_match (GreedyStar k) (caps, s) = map (Pair caps) (rev (lazy_star k s))"
| "rx_match (GreedyPlus k) (caps, s) = map (Pair caps) (rev (tl (lazy_star k s)))"
| "rx_match (Opt r) st = rx_match r st @ [st]"
| "rx_match (Seq r1 r2) st = concat (map (rx_match r2) (rx_match r1 st))"
| "rx_match (Alt r1 r2) st = rx_match r1 st @ rx_match r2 st"
| "rx_match (Group name r) (caps, s) =
     map (\<lambda>(caps', s'). (caps'(name \<mapsto> take (length s - length s') s), s'))
       (rx_match r (caps, s))"

definition PATTERN :: regex where
  "PATTERN =
     Seq (Opt (Seq (Lit CHR ''@'') (Seq (Group ''tags'' (LazyStar AnyChar)) (Lit CHR '' ''))))
    (Seq (Lit CHR '':'')
    (Seq (Seq (Group ''prefix'' (LazyStar AnyChar)) (Opt (Lit CHR '' '')))
    (Seq (Lit CHR '' '')
    (Seq (Group ''command'' (Alt (GreedyPlus WordChar) (GreedyPlus DigitChar)))
    (Seq (Lit CHR '' '')
         (Group ''params'' (GreedyStar AnyChar)))))))"

text \<open>\<open>PATTERN.match(message)\<close>: the captures of the first complete match, if any.\<close>

definition PATTERN_match :: "string \<Rightarrow> captures option" where
  "PATTERN_match message =
     (case rx_match PATTERN (Map.empty, message) of
        [] \<Rightarrow> None
      | (caps, rest) # _ \<Rightarrow> Some caps)"

text \<open>
  \<open>match.groupdict()\<close>: every named group of the pattern is a key; a group that took
  no part in the match has the value \<open>None\<close>.
\<close>

definition groupdict :: "captures \<Rightarrow> pydict" where
  "groupdict caps =
     (\<lambda>name. if name \<in> set [''tags'', ''prefix'', ''command'', ''params'']
             then Some (case caps name of None \<Rightarrow> PNone | Some s \<Rightarrow> PStr s)
             else None)"

section \<open>The typed messages of the parser\<close>

datatype SysMessageTypes =
    GENERIC | PING | JOIN | PART | CAP | MODE | NAMES | CLEAR_CHAT | CLEAR_MSG
  | HOST_TARGET | NOTICE | RECONNECT | ROOM_STATE | USER_NOTICE | USER_STATE
  | GLOBAL_USER_STATE

datatype IrcResponses =
    WELCOME | YOUR_HOST | CREATED | MY_INFO | MOTD_START | MOTD | MOTD_END
  | NAME_REPLY | NAME_END | UNKNOWN_COMMAND

text \<open>
  The classes of \<open>dataclasses.py\<close> that the parser builds, one constructor per class
  with the fields the class declares; \<open>NoValue\<close> is Python's \<open>None\<close>, which a handler
  without a return statement gives back.
\<close>

datatype message =
    SystemMessage SysMessageTypes pyval string IrcResponses
  | ModeMessage string string bool
  | NamesMessage string "string list"
  | JoinMessage string string
  | PartMessage string string
  | HostMessage string string
  | ClearChatMessage string "string option"
  | ClearMsgMessage string string
  | NoValue

text \<open>
  \<open>SystemMessage\<close> is a frozen dataclass with the four fields \<open>type\<close>, \<open>user\<close>,
  \<open>message\<close> and \<open>code\<close>, none with a default, so the \<open>__init__\<close> that the
  decorator generates requires all four: a call that leaves one out raises TypeError.
  An argument that a call does not supply is \<open>None\<close> here.
\<close>

definition SystemMessage_init ::
  "SysMessageTypes option \<Rightarrow> pyval option \<Rightarrow> string option \<Rightarrow> IrcResponses option
     \<Rightarrow> py_error + message" where
  "SystemMessage_init type user msg code =
     (case (type, user, msg, code) of
        (Some t, Some u, Some m, Some c) \<Rightarrow> Inr (SystemMessage t u m c)
      | _ \<Rightarrow> Inl TypeError)"

text \<open>
  Every subclass defines its own \<open>__init__\<close>, which the decorator keeps, and which
  begins with \<open>super().__init__(...)\<close> on some of the four fields.
\<close>

definition new_ModeMessage :: "string \<Rightarrow> string \<Rightarrow> bool \<Rightarrow> py_error + message" where
  "new_ModeMessage channel user op =
     and_then (SystemMessage_init (Some MODE) (Some (PStr user)) None None) (\<lambda>_. Inr (ModeMessage channel user op))"

definition new_NamesMessage :: "string \<Rightarrow> string list \<Rightarrow> py_error + message" where
  "new_NamesMessage channel names =
     and_then (SystemMessage_init (Some NAMES) None None (Some NAME_REPLY)) (\<lambda>_. Inr (NamesMessage channel names))"

definition new_JoinMessage :: "string \<Rightarrow> string \<Rightarrow> py_error + message" where
  "new_JoinMessage channel user =
     and_then (SystemMessage_init (Some JOIN) (Some (PStr user)) None None) (\<lambda>_. Inr (JoinMessage channel user))"

definition new_PartMessage :: "string \<Rightarrow> string \<Rightarrow> py_error + message" where
  "new_PartMessage channel user =
     and_then (SystemMessage_init (Some PART) (Some (PStr user)) None None) (\<lambda>_. Inr (PartMessage channel user))"

definition new_HostMessage :: "string \<Rightarrow> string \<Rightarrow> py_error + message" where
  "new_HostMessage channel user =
     and_then (SystemMessage_init (Some HOST_TARGET) (Some (PStr user)) None None) (\<lambda>_. Inr (HostMessage channel user))"

text \<open>
  \<open>ClearChatMessage(*parts)\<close>: the constructor takes a channel and an optional user;
  any other number of arguments is a TypeError.
\<close>

definition new_ClearChatMessage :: "string list \<Rightarrow> py_error + message" where
  "new_ClearChatMessage args =
     (case args of
        [channel] \<Rightarrow>
          and_then (SystemMessage_init (Some CLEAR_CHAT) None None None)
            (\<lambda>_. Inr (ClearChatMessage channel None))
      | [channel, user] \<Rightarrow>
          and_then (SystemMessage_init (Some CLEAR_CHAT) None None None)
            (\<lambda>_. Inr (ClearChatMessage channel (Some user)))
      | _ \<Rightarrow> Inl TypeError)"

definition new_ClearMsgMessage :: "string \<Rightarrow> string \<Rightarrow> py_error + message" where
  "new_ClearMsgMessage channel message_id =
     and_then (SystemMessage_init (Some CLEAR_MSG) None None None)
       (\<lambda>_. Inr (ClearMsgMessage channel message_id))"

section \<open>The handlers of the parser\<close>

definition SYSTEM_ID :: string where
  "SYSTEM_ID = ''tmi.twitch.tv''"

definition LOOKUP :: "int \<rightharpoonup> string" where
  "LOOKUP = map_of
     [(1, ''welcome''), (2, ''your_host''), (3, ''created''), (4, ''my_info''),
      (375, ''motd_start''), (372, ''motd''), (376, ''motd_end''),
      (353, ''name_reply''), (366, ''name_end''),
      (421, ''unknown_command'')]"

text \<open>\<open>data[key].split(' ', n)[-1]\<close>, the shape most handlers start with.\<close>

definition last_field :: "pydict \<Rightarrow> nat \<Rightarrow> py_error + string" where
  "last_field data n =
     and_then (item data ''params'') (\<lambda>v.
     and_then (str_method v) (\<lambda>s. Inr (last (splitn CHR '' '' n s))))"

definition generic_with_id :: "pydict \<Rightarrow> nat \<Rightarrow> IrcResponses \<Rightarrow> py_error + message" where
  "generic_with_id data n code =
     and_then (last_field data n) (\<lambda>m.
       SystemMessage_init (Some GENERIC) (Some (PStr SYSTEM_ID)) (Some (drop 1 m)) (Some code))"

definition parse_welcome :: "pydict \<Rightarrow> py_error + message" where
  "parse_welcome data =
     and_then (last_field data 1) (\<lambda>m.
     and_then (item data ''prefix'') (\<lambda>p.
       SystemMessage_init (Some GENERIC) (Some p) (Some (drop 1 m)) (Some WELCOME)))"

definition parse_your_host :: "pydict \<Rightarrow> py_error + message" where
  "parse_your_host data = generic_with_id data 1 YOUR_HOST"

definition parse_created :: "pydict \<Rightarrow> py_error + message" where
  "parse_created data = generic_with_id data 1 CREATED"

definition parse_my_info :: "pydict \<Rightarrow> py_error + message" where
  "parse_my_info data =
     and_then (item data ''params'') (\<lambda>v.
     and_then (str_method v) (\<lambda>s.
       (case splitn CHR '' '' 1 s of
          [user, m] \<Rightarrow>
            SystemMessage_init (Some GENERIC) (Some (PStr user)) (Some []) (Some MY_INFO)
        | _ \<Rightarrow> Inl (ValueError ''not enough values to unpack''))))"

definition parse_motd_start :: "pydict \<Rightarrow> py_error + message" where
  "parse_motd_start data = generic_with_id data 1 MOTD_START"

text \<open>\<open>parse_motd\<close> splits without a limit and keeps the last word.\<close>

definition parse_motd :: "pydict \<Rightarrow> py_error + message" where
  "parse_motd data =
     and_then (item data ''params'') (\<lambda>v.
     and_then (str_method v) (\<lambda>s.
       SystemMessage_init (Some GENERIC) (Some (PStr SYSTEM_ID))
         (Some (drop 1 (last (split CHR '' '' s)))) (Some MOTD)))"

definition parse_motd_end :: "pydict \<Rightarrow> py_error + message" where
  "parse_motd_end data = generic_with_id data 1 MOTD_END"

definition parse_name_reply :: "pydict \<Rightarrow> py_error + message" where
  "parse_name_reply data =
     and_then (item data ''params'') (\<lambda>v.
     and_then (str_method v) (\<lambda>s.
       (case splitn CHR '' '' 3 s of
          [us, eq, channel, names] \<Rightarrow> new_NamesMessage channel (split CHR '' '' names)
        | _ \<Rightarrow> Inl (ValueError ''not enough values to unpack''))))"

definition parse_name_end :: "pydict \<Rightarrow> py_error + message" where
  "parse_name_end data =
     and_then (item data ''params'') (\<lambda>v.
     and_then (str_method v) (\<lambda>s.
       (case splitn CHR '' '' 2 s of
          [us, channel, m] \<Rightarrow>
            SystemMessage_init (Some GENERIC) (Some (PStr (drop 1 channel))) (Some (drop 1 m))
              (Some NAME_END)
        | _ \<Rightarrow> Inl (ValueError ''not enough values to unpack''))))"

definition parse_unknown_command :: "pydict \<Rightarrow> py_error + message" where
  "parse_unknown_command data = generic_with_id data 2 UNKNOWN_COMMAND"

definition parse_mode :: "pydict \<Rightarrow> py_error + message" where
  "parse_mode data =
     and_then (item data ''params'') (\<lambda>v.
     and_then (str_method v) (\<lambda>s.
       (case split CHR '' '' s of
          [channel, status, user] \<Rightarrow>
            (case status of
               [] \<Rightarrow> Inl IndexError
             | c # _ \<Rightarrow> new_ModeMessage (drop 1 channel) user (c = CHR ''+''))
        | _ \<Rightarrow> Inl (ValueError ''wrong number of values to unpack''))))"

text \<open>
  \<open>user, _ = data['prefix'].split('!', 1)\<close> needs exactly two parts, so a prefix
  without \<open>!\<close> raises ValueError; the channel is the parameter tail without its first
  character.
\<close>

definition parse_join :: "pydict \<Rightarrow> py_error + message" where
  "parse_join data =
     and_then (item data ''prefix'') (\<lambda>v.
     and_then (str_method v) (\<lambda>p.
       (case splitn CHR ''!'' 1 p of
          [user, rest] \<Rightarrow>
            and_then (item data ''params'') (\<lambda>w.
            and_then (str_subscript w) (\<lambda>params.
              new_JoinMessage (drop 1 params) user))
        | _ \<Rightarrow> Inl (ValueError ''not enough values to unpack''))))"

definition parse_part :: "pydict \<Rightarrow> py_error + message" where
  "parse_part data =
     and_then (item data ''prefix'') (\<lambda>v.
     and_then (str_method v) (\<lambda>p.
       (case splitn CHR ''!'' 1 p of
          [user, rest] \<Rightarrow>
            and_then (item data ''params'') (\<lambda>w.
            and_then (str_subscript w) (\<lambda>params.
              new_PartMessage (drop 1 params) user))
        | _ \<Rightarrow> Inl (ValueError ''not enough values to unpack''))))"

definition parse_hosttarget :: "pydict \<Rightarrow> py_error + message" where
  "parse_hosttarget data =
     and_then (item data ''params'') (\<lambda>v.
     and_then (str_method v) (\<lambda>s.
       (case split CHR '' '' s of
          channel # target # rest \<Rightarrow> new_HostMessage (drop 1 channel) (drop 1 target)
        | _ \<Rightarrow> Inl (ValueError ''not enough values to unpack''))))"

text \<open>\<open>parse_cap\<close> calls \<open>SystemMessage\<close> with three arguments.\<close>

definition parse_cap :: "pydict \<Rightarrow> py_error + message" where
  "parse_cap data =
     and_then (item data ''prefix'') (\<lambda>p.
     and_then (item data ''params'') (\<lambda>w.
     and_then (str_subscript w) (\<lambda>params.
       SystemMessage_init (Some CAP) (Some p) (Some (drop 2 params)) None)))"

definition parse_clearchat :: "pydict \<Rightarrow> py_error + message" where
  "parse_clearchat data =
     and_then (item data ''params'') (\<lambda>v.
     and_then (str_method v) (\<lambda>s. new_ClearChatMessage (split CHR '' '' s)))"

text \<open>
  \<open>parse_clearmsg\<close> reads \<open>data['tags'].get('target-msg-id')\<close>. The dictionary it is
  given holds under \<open>tags\<close> the text of the tag block or \<open>None\<close>, and neither has a
  \<open>get\<close> method.
\<close>

definition parse_clearmsg :: "pydict \<Rightarrow> py_error + message" where
  "parse_clearmsg data =
     and_then (item data ''params'') (\<lambda>v.
     and_then (str_method v) (\<lambda>s.
     and_then (item data ''tags'') (\<lambda>t. Inl AttributeError)))"

definition parse_globaluserstate :: "pydict \<Rightarrow> py_error + message" where
  "parse_globaluserstate data = Inr NoValue"

section \<open>Parser.parse\<close>

text \<open>
  \<open>inspect.getmembers(Parser)\<close> lists the attributes of the class sorted by name, each
  with the value \<open>getattr(Parser, name)\<close>. Every method of \<open>Parser\<close> but \<open>__init__\<close>
  is declared with \<open>@classmethod\<close>, so its value is a method bound to the class; the
  three tables are plain attributes. The members whose names begin with two underscores
  are left out: the loop skips them, as none begins with \<open>parse_\<close>.
\<close>

datatype member = Attribute | PlainFunction | BoundMethod

definition getmembers_Parser :: "(string \<times> member) list" where
  "getmembers_Parser =
     [(''LOOKUP'', Attribute), (''PATTERN'', Attribute), (''SYSTEM_ID'', Attribute),
      (''_extract_tags'', BoundMethod), (''parse'', BoundMethod),
      (''parse_cap'', BoundMethod), (''parse_clearchat'', BoundMethod),
      (''parse_clearmsg'', BoundMethod), (''parse_created'', BoundMethod),
      (''parse_globaluserstate'', BoundMethod), (''parse_hosttarget'', BoundMethod),
      (''parse_join'', BoundMethod), (''parse_mode'', BoundMethod),
      (''parse_motd'', BoundMethod), (''parse_motd_end'', BoundMethod),
      (''parse_motd_start'', BoundMethod), (''parse_my_info'', BoundMethod),
      (''parse_name_end'', BoundMethod), (''parse_name_reply'', BoundMethod),
      (''parse_part'', BoundMethod), (''parse_unknown_command'', BoundMethod),
      (''parse_welcome'', BoundMethod), (''parse_your_host'', BoundMethod)]"

text \<open>
  \<open>inspect.isfunction\<close> is true of a plain function object only; a bound method is
  not one (\<open>inspect.ismethod\<close> is the test for it).
\<close>

fun isfunction :: "member \<Rightarrow> bool" where
  "isfunction PlainFunction = True"
| "isfunction BoundMethod = False"
| "isfunction Attribute = False"

text \<open>Calling the member of that name with the dictionary.\<close>

definition call_member :: "string \<Rightarrow> pydict \<Rightarrow> py_error + message" where
  "call_member name data =
     (case map_of
        [(''parse_cap'', parse_cap), (''parse_clearchat'', parse_clearchat),
         (''parse_clearmsg'', parse_clearmsg), (''parse_created'', parse_created),
         (''parse_globaluserstate'', parse_globaluserstate),
         (''parse_hosttarget'', parse_hosttarget),
         (''parse_join'', parse_join), (''parse_mode'', parse_mode),
         (''parse_motd'', parse_motd), (''parse_motd_end'', parse_motd_end),
         (''parse_motd_start'', parse_motd_start), (''parse_my_info'', parse_my_info),
         (''parse_name_end'', parse_name_end), (''parse_name_reply'', parse_name_reply),
         (''parse_part'', parse_part), (''parse_unknown_command'', parse_unknown_command),
         (''parse_welcome'', parse_welcome), (''parse_your_host'', parse_your_host)] name of
        Some handler \<Rightarrow> handler data
      | None \<Rightarrow> Inl TypeError)"

text \<open>
  \<^verbatim>\<open>
  for segment in c['tags'].split(';'):
      parts = segment.split('=')
      try: tags[parts[0]] = parts[1]
      except IndexError: tags[parts[0]] = ""
  \<close>
\<close>

definition extract_tags :: "pydict \<Rightarrow> (string \<rightharpoonup> string) \<Rightarrow> py_error + (string \<rightharpoonup> string)" where
  "extract_tags c tags =
     and_then (item c ''tags'') (\<lambda>v.
     and_then (str_method v) (\<lambda>s.
       Inr (foldl (\<lambda>m segment.
                    (case split CHR ''='' segment of
                       k # v # _ \<Rightarrow> m(k \<mapsto> v)
                     | [k] \<Rightarrow> m(k \<mapsto> [])
                     | [] \<Rightarrow> m))
              tags (split CHR '';'' s))))"

text \<open>
  The loop over the members. \<open>groups\<close> is the dictionary of the match; the loop
  replaces \<open>groups['command']\<close> by an integer when it is a string of digits, which
  happens only once a member has passed both tests before it. \<open>isdigit\<close> is a method of
  \<open>str\<close>, so the test raises AttributeError on a command that is no longer one.
\<close>

fun dispatch :: "(string \<times> member) list \<Rightarrow> pydict \<Rightarrow> py_error + message" where
  "dispatch [] groups =
     and_then (item groups ''command'') (\<lambda>c.
       Inl (ValueError (''No parser found for command '' @ format_val c)))"
| "dispatch ((name, instance) # rest) groups =
     (if \<not> startswith name ''parse_'' then dispatch rest groups
      else if \<not> isfunction instance then dispatch rest groups
      else
        and_then (item groups ''command'') (\<lambda>c.
        and_then (str_method c) (\<lambda>s.
          (let groups' = (if isdigit s then groups(''command'' \<mapsto> PInt (int_of_str s))
                          else groups)
           in and_then (item groups' ''command'') (\<lambda>c'.
                if name \<noteq> ''parse_'' @ format_val c' then dispatch rest groups'
                else call_member name groups')))))"

text \<open>
  \<^verbatim>\<open>
  match = Parser.PATTERN.match(message)
  if not match: raise ValueError
  groups = match.groupdict(); c = groups.copy(); tags = {}
  if 'tags' in c: cls._extract_tags(c, tags)
  c['tags'] = tags
  for name, instance in inspect.getmembers(Parser): ...
  raise ValueError(f'No parser found for command {groups["command"]}')
  \<close>
  The copy \<open>c\<close> and the mapping \<open>tags\<close> are not read after they are filled: the
  handlers are given \<open>groups\<close>.
\<close>

definition parse :: "string \<Rightarrow> py_error + message" where
  "parse message =
     (case PATTERN_match message of
        None \<Rightarrow> Inl (ValueError [])
      | Some m \<Rightarrow>
          (let groups = groupdict m; c = groups in
           and_then (if ''tags'' \<in> dom c then extract_tags c Map.empty else Inr Map.empty)
             (\<lambda>tags. dispatch getmembers_Parser groups)))"

text \<open>
  The command tokens that have a handler by the names of the class: the word in lower
  case, or the name that \<open>LOOKUP\<close> gives for a numeric code.
\<close>

definition handler_names :: "string list" where
  "handler_names = filter (\<lambda>n. startswith n ''parse_'') (map fst getmembers_Parser)"

definition known_command :: "string \<Rightarrow> bool" where
  "known_command token =
     (''parse_'' @ lower token \<in> set handler_names \<or>
      (isdigit token \<and> LOOKUP (int_of_str token) \<noteq> None))"

section \<open>The gateway: its state\<close>

text \<open>
  The attributes that \<open>Gateway.__init__\<close> sets, under their names without the leading
  underscore. \<open>whispered_accounts\<close> is declared as a list of names, and two methods
  assign the integer 0 to it, so its value is one or the other. A moment in time is a
  number of microseconds since the epoch, the resolution of \<open>datetime\<close>.

  The last six fields are the environment as the gateway sees it: what
  \<open>self._socket.isValid()\<close> answers, what \<open>datetime.datetime.now\<close> answers, the calls
  made on the socket, the single-shot timers armed, the delays with which the timer of
  the reconnection loop is started, and the signals emitted, in order.
\<close>

datatype accounts = PyList "string list" | PyInt int

datatype signal =
    on_priv_limit_reset | on_join_limit_reset | on_whisper_second_reset
  | on_whisper_minute_reset | on_whisper_account_reset | on_message string

datatype callback =
    reset_join_limit_auto | reset_priv_limit_auto | reset_w_second_auto
  | reset_w_minute_auto | reset_w_daily_auto

datatype socket_call = SocketOpen string | SocketClose | SendTextMessage string

record gateway =
  channels :: "string list"
  whisper_reset :: "int option"
  nick :: string
  token :: string
  host :: string
  port :: int
  whisper_second_started :: bool
  whisper_minute_started :: bool
  whisper_daily_started :: bool
  join_started :: bool
  priv_started :: bool
  should_reconnect :: bool
  priv_sent :: int
  priv_limit :: int
  priv_period :: int
  join_sent :: int
  join_limit :: int
  join_period :: int
  whispers_this_second :: int
  whispers_this_minute :: int
  whispered_accounts :: accounts
  whisper_second_limit :: int
  whisper_minute_limit :: int
  whisper_accounts_limit :: int
  reconnect_attempts :: int
  socket_valid :: bool
  clock :: int
  socket_calls :: "socket_call list"
  single_shots :: "(int \<times> callback) list"
  timer_starts :: "int list"
  emitted :: "signal list"

text \<open>
  \<open>Gateway(nick=..., token=..., whisper_reset=...)\<close> with the default host and port;
  the socket is not open yet.
\<close>

definition new_Gateway :: "string \<Rightarrow> string \<Rightarrow> int option \<Rightarrow> gateway" where
  "new_Gateway nick0 token0 whisper_reset0 =
     \<lparr> channels = [],
       whisper_reset = whisper_reset0,
       nick = nick0,
       token = (if token0 \<noteq> ''foobar'' \<and> \<not> startswith token0 ''oauth''
                then ''oauth:'' @ token0 else token0),
       host = ''irc-ws.chat.twitch.tv'',
       port = 443,
       whisper_second_started = False,
       whisper_minute_started = False,
       whisper_daily_started = False,
       join_started = False,
       priv_started = False,
       should_reconnect = True,
       priv_sent = 0, priv_limit = 20, priv_period = 30,
       join_sent = 0, join_limit = 50, join_period = 15,
       whispers_this_second = 0,
       whispers_this_minute = 0,
       whispered_accounts = PyList [],
       whisper_second_limit = 3,
       whisper_minute_limit = 200,
       whisper_accounts_limit = 40,
       reconnect_attempts = 0,
       socket_valid = False,
       clock = 0,
       socket_calls = [],
       single_shots = [],
       timer_starts = [],
       emitted = [] \<rparr>"

definition default_Gateway :: gateway where
  "default_Gateway = new_Gateway ''justinfan2389'' ''foobar'' None"

definition one_day :: int where
  "one_day = 86400000000"

text \<open>
  \<open>(a - b).days\<close> for two moments: a \<open>timedelta\<close> is normalised so that its seconds
  and microseconds are not negative, which makes \<open>days\<close> the floor of the quotient.
\<close>

definition days_between :: "int \<Rightarrow> int \<Rightarrow> int" where
  "days_between a b = (a - b) div one_day"

section \<open>The gateway: resets and waits\<close>

definition emit :: "signal \<Rightarrow> gateway \<Rightarrow> gateway" where
  "emit sig g = g\<lparr>emitted := emitted g @ [sig]\<rparr>"

definition singleShot :: "int \<Rightarrow> callback \<Rightarrow> gateway \<Rightarrow> gateway" where
  "singleShot msec cb g = g\<lparr>single_shots := single_shots g @ [(msec, cb)]\<rparr>"

definition reset_priv_limit :: "bool \<Rightarrow> gateway \<Rightarrow> gateway" where
  "reset_priv_limit automated g =
     (let g1 = emit on_priv_limit_reset (g\<lparr>priv_sent := 0\<rparr>)
      in if automated then singleShot (priv_period g1 * 1000) reset_priv_limit_auto g1 else g1)"

definition reset_join_limit :: "bool \<Rightarrow> gateway \<Rightarrow> gateway" where
  "reset_join_limit automated g =
     (let g1 = emit on_join_limit_reset (g\<lparr>join_sent := 0\<rparr>)
      in if automated then singleShot (join_period g1 * 1000) reset_join_limit_auto g1 else g1)"

definition reset_whisper_seconds :: "bool \<Rightarrow> gateway \<Rightarrow> gateway" where
  "reset_whisper_seconds automated g =
     (let g1 = emit on_whisper_second_reset (g\<lparr>whispers_this_second := 0\<rparr>)
      in if automated then singleShot 1000 reset_w_second_auto g1 else g1)"

text \<open>
  A method that can raise after it has changed the gateway returns the exception, if
  any, and the gateway it leaves behind.

  \<^verbatim>\<open>
  dif = self.whisper_reset - datetime.datetime.now(tz=datetime.timezone.utc)
  if dif.days > 0:
      self._whispered_accounts = 0
  \<close>
  The subtraction raises TypeError while \<open>whisper_reset\<close> is \<open>None\<close>, its default.
\<close>

definition reset_whisper_minutes :: "bool \<Rightarrow> gateway \<Rightarrow> py_error option \<times> gateway" where
  "reset_whisper_minutes automated g =
     (let g1 = emit on_whisper_minute_reset (g\<lparr>whispers_this_minute := 0\<rparr>);
          g2 = (if automated then singleShot (1000 * 60) reset_w_minute_auto g1 else g1)
      in case whisper_reset g2 of
           None \<Rightarrow> (Some TypeError, g2)
         | Some deadline \<Rightarrow>
             (None, if days_between deadline (clock g2) > 0
                    then g2\<lparr>whispered_accounts := PyInt 0\<rparr> else g2))"

text \<open>
  \<^verbatim>\<open>
  now = datetime.datetime.now(tz=datetime.timezone.utc)
  dif = self.whisper_reset - now
  if dif.days <= 0:
      return
  self._whispered_accounts = 0
  self.whisper_reset = now + datetime.timedelta(days=1)
  self.on_whisper_account_reset.emit()
  if automated:
      self._timer.singleShot(1000 * 60 * 60, self._reset_w_daily_auto)
  \<close>
  \<open>clear_whisper_accounts\<close> is the part after the early return.
\<close>

definition clear_whisper_accounts :: "bool \<Rightarrow> gateway \<Rightarrow> gateway" where
  "clear_whisper_accounts automated g =
     (let g1 = emit on_whisper_account_reset
                 (g\<lparr>whispered_accounts := PyInt 0, whisper_reset := Some (clock g + one_day)\<rparr>)
      in if automated then singleShot (1000 * 60 * 60) reset_w_daily_auto g1 else g1)"

definition reset_whisper_daily :: "bool \<Rightarrow> gateway \<Rightarrow> py_error option \<times> gateway" where
  "reset_whisper_daily automated g =
     (case whisper_reset g of
        None \<Rightarrow> (Some TypeError, g)
      | Some deadline \<Rightarrow>
          (if days_between deadline (clock g) \<le> 0 then (None, g)
           else (None, clear_whisper_accounts automated g)))"

text \<open>
  Modelled from the spec: \<open>signals.wait_for_signal\<close> belongs to the QtUtilities package,
  which is not part of this repository. "If at capacity, the caller must suspend until
  that bucket's reset signal fires": the caller does nothing until the signal is
  emitted. Each reset signal is emitted by one method only, so the caller goes on in the
  state which that method leaves behind when it emits, called as its timer calls it
  (\<open>automated=True\<close>). One caller runs at a time: no other call is made on the gateway
  between the suspension and the reset. A wait that never ends is not modelled.
\<close>

definition wait_for_signal :: "signal \<Rightarrow> gateway \<Rightarrow> gateway" where
  "wait_for_signal sig g =
     (case sig of
        on_priv_limit_reset \<Rightarrow> reset_priv_limit True g
      | on_join_limit_reset \<Rightarrow> reset_join_limit True g
      | on_whisper_second_reset \<Rightarrow> reset_whisper_seconds True g
      | on_whisper_minute_reset \<Rightarrow> snd (reset_whisper_minutes True g)
      | on_whisper_account_reset \<Rightarrow> clear_whisper_accounts True g
      | on_message m \<Rightarrow> g)"

definition wait_and_increment_priv :: "gateway \<Rightarrow> gateway" where
  "wait_and_increment_priv g =
     (let g1 = (if priv_sent g \<ge> priv_limit g then wait_for_signal on_priv_limit_reset g else g)
      in g1\<lparr>priv_sent := priv_sent g1 + 1\<rparr>)"

definition wait_and_increment_join :: "gateway \<Rightarrow> gateway" where
  "wait_and_increment_join g =
     (let g1 = (if join_sent g \<ge> join_limit g then wait_for_signal on_join_limit_reset g else g)
      in g1\<lparr>join_sent := join_sent g1 + 1\<rparr>)"

section \<open>The gateway: sending\<close>

text \<open>
  \<^verbatim>\<open>
  if not ignore_limit:
      if content.lower().startswith("CAP REQ"):
          self.wait_and_increment_priv()
      else:
          self.wait_and_increment_join()
  if not content.endswith('\r\n'):
      content += '\r\n'
  self._socket.sendTextMessage(content)
  \<close>
\<close>

definition send_raw_message :: "string \<Rightarrow> bool \<Rightarrow> gateway \<Rightarrow> gateway" where
  "send_raw_message content ignore_limit g =
     (let g1 = (if \<not> ignore_limit
                then (if startswith (lower content) ''CAP REQ''
                      then wait_and_increment_priv g
                      else wait_and_increment_join g)
                else g);
          content' = (if \<not> endswith content CRLF then content @ CRLF else content)
      in g1\<lparr>socket_calls := socket_calls g1 @ [SendTextMessage content']\<rparr>)"

text \<open>
  The moderation commands of the class (\<open>ban\<close>, \<open>timeout\<close>, \<open>slow\<close>, \<open>mod\<close>, ...) are
  calls of \<open>send_priv_message\<close> with the text of the command.
\<close>

definition send_priv_message :: "string \<Rightarrow> string \<Rightarrow> gateway \<Rightarrow> gateway" where
  "send_priv_message channel content g =
     (let g1 = (if \<not> priv_started g
                then (singleShot (1000 * priv_limit g) reset_priv_limit_auto g)\<lparr>priv_started := True\<rparr>
                else g);
          g2 = wait_and_increment_priv g1
      in send_raw_message (''PRIVMSG #'' @ channel @ '' :'' @ content) True g2)"

definition join :: "string \<Rightarrow> gateway \<Rightarrow> gateway" where
  "join channel g =
     (let g1 = send_raw_message (''JOIN #'' @ channel) False g
      in if channel \<notin> set (channels g1) then g1\<lparr>channels := channels g1 @ [channel]\<rparr> else g1)"

definition part :: "string \<Rightarrow> gateway \<Rightarrow> gateway" where
  "part channel g =
     (let g1 = send_raw_message (''PART #'' @ channel) False g
      in if channel \<in> set (channels g1) then g1\<lparr>channels := remove1 channel (channels g1)\<rparr> else g1)"

section \<open>The gateway: whispers\<close>

text \<open>
  \<open>user not in self._whispered_accounts\<close> raises TypeError once the attribute holds
  an integer.
\<close>

definition can_whisper :: "string \<Rightarrow> gateway \<Rightarrow> py_error + bool" where
  "can_whisper user g =
     (case whispered_accounts g of
        PyInt n \<Rightarrow> Inl TypeError
      | PyList accs \<Rightarrow>
          Inr (if user \<notin> set accs \<and> int (length accs) \<ge> whisper_accounts_limit g then False
               else if whispers_this_minute g \<ge> whisper_minute_limit g then False
               else if whispers_this_second g \<ge> whisper_second_limit g then False
               else True))"

definition wait_for_whisper :: "bool \<Rightarrow> gateway \<Rightarrow> py_error + gateway" where
  "wait_for_whisper include_accounts g =
     (if whispers_this_minute g \<ge> whisper_minute_limit g
        then Inr (wait_for_signal on_whisper_minute_reset g)
      else if whispers_this_second g \<ge> whisper_second_limit g
        then Inr (wait_for_signal on_whisper_second_reset g)
      else if include_accounts
        then (case whispered_accounts g of
                PyInt n \<Rightarrow> Inl TypeError
              | PyList accs \<Rightarrow>
                  (if int (length accs) \<ge> whisper_accounts_limit g
                   then Inr (wait_for_signal on_whisper_account_reset g) else Inr g))
      else Inr g)"

definition increment_whisper :: "string \<Rightarrow> gateway \<Rightarrow> py_error option \<times> gateway" where
  "increment_whisper user g =
     (case whispered_accounts g of
        PyInt n \<Rightarrow> (Some TypeError, g)
      | PyList accs \<Rightarrow>
          (None,
           g\<lparr>whispered_accounts := PyList (if user \<notin> set accs then accs @ [user] else accs),
             whispers_this_second := whispers_this_second g + 1,
             whispers_this_minute := whispers_this_minute g + 1\<rparr>))"

text \<open>
  \<^verbatim>\<open>
  if not self.can_whisper(user):
      self.wait_for_whisper()
  self.send_raw_message(f'PRIVMSG #jtv :.w {user} {content}')
  self.increment_whisper(user)
  \<close>
  \<open>wait_for_whisper\<close> is called without \<open>include_accounts\<close>, which is then \<open>None\<close>.
\<close>

definition send_whisper_message :: "string \<Rightarrow> string \<Rightarrow> gateway \<Rightarrow> py_error option \<times> gateway" where
  "send_whisper_message user content g =
     (case can_whisper user g of
        Inl e \<Rightarrow> (Some e, g)
      | Inr ok \<Rightarrow>
          (case (if \<not> ok then wait_for_whisper False g else Inr g) of
             Inl e \<Rightarrow> (Some e, g)
           | Inr g1 \<Rightarrow>
               increment_whisper user
                 (send_raw_message (''PRIVMSG #jtv :.w '' @ user @ '' '' @ content) False g1)))"

section \<open>The gateway: connection\<close>

definition url :: "gateway \<Rightarrow> string" where
  "url g = host g @ '':'' @ format_val (PInt (port g))"

definition socket_call :: "socket_call \<Rightarrow> gateway \<Rightarrow> gateway" where
  "socket_call c g = g\<lparr>socket_calls := socket_calls g @ [c]\<rparr>"

text \<open>
  \<open>Gateway.connect_\<close> and \<open>Gateway.disconnect_\<close> (a name cannot end with an
  underscore here); \<open>connect_()\<close> is as \<open>reconnect\<close> calls it, without a host or a port.
\<close>

definition gateway_connect :: "gateway \<Rightarrow> py_error option \<times> gateway" where
  "gateway_connect g =
     (if host g = [] then (Some (ConnectionAbortedError ''No host specified!''), g)
      else if port g = 0 then (Some (ConnectionAbortedError ''No port specified!''), g)
      else (None, socket_call (SocketOpen (url g)) g))"

definition gateway_disconnect :: "gateway \<Rightarrow> py_error option \<times> gateway" where
  "gateway_disconnect g =
     (if \<not> socket_valid g then (Some ConnectionError, g)
      else (None, socket_call SocketClose g))"

text \<open>
  \<^verbatim>\<open>
  self._should_reconnect = True
  try:
      self.disconnect_()
  except ConnectionError:
      logging.warning('Reconnect issued on a closed socket!')
      self._should_reconnect = False
      self.connect_()
  \<close>
\<close>

definition reconnect :: "gateway \<Rightarrow> py_error option \<times> gateway" where
  "reconnect g =
     (case gateway_disconnect (g\<lparr>should_reconnect := True\<rparr>) of
        (None, g1) \<Rightarrow> (None, g1)
      | (Some e, g1) \<Rightarrow> gateway_connect (g1\<lparr>should_reconnect := False\<rparr>))"

definition process_connection :: "gateway \<Rightarrow> gateway" where
  "process_connection g =
     (if \<not> socket_valid g then g
      else
        (let g1 = (if \<not> join_started g
                   then (singleShot (join_period g * 1000) reset_join_limit_auto g)\<lparr>join_started := True\<rparr>
                   else g);
             g2 = send_raw_message (''PASS '' @ token g1) False g1;
             g3 = send_raw_message (''NICK '' @ nick g2) False g2;
             g4 = send_raw_message ''CAP REQ :twitch.tv/membership'' False g3;
             g5 = send_raw_message ''CAP REQ :twitch.tv/tags'' False g4;
             g6 = send_raw_message ''CAP REQ :twitch.tv/commands'' False g5
         in foldl (\<lambda>h channel. send_raw_message (''JOIN #'' @ channel) False h) g6 (channels g6)))"

text \<open>
  \<^verbatim>\<open>
  while not self._socket.isValid():
      if self._reconnect_attempts > 5:
          self._reconnect_attempts = 0
          break
      self._socket.open(QtCore.QUrl(f'{self.host}:{self.port}'))
      timer.start(max(self._reconnect_attempts * 5, 1))
      signals.wait_for_signal_or(self._socket.connected, timer.timeout)
      self._reconnect_attempts += 1
  \<close>
  Whether an attempt to open the socket succeeds is the environment's choice: \<open>env\<close>
  lists, for the attempts to come, whether the socket is valid when the wait after the
  attempt is over; an attempt beyond the list leaves the socket as it is.
\<close>

function reconnect_loop :: "bool list \<Rightarrow> gateway \<Rightarrow> gateway" where
  "reconnect_loop env g =
     (if socket_valid g then g
      else if reconnect_attempts g > 5 then g\<lparr>reconnect_attempts := 0\<rparr>
      else reconnect_loop (tl env)
             ((socket_call (SocketOpen (url g)) g)
                \<lparr>timer_starts := timer_starts g @ [max (reconnect_attempts g * 5) 1],
                 socket_valid := (case env of [] \<Rightarrow> socket_valid g | v # _ \<Rightarrow> v),
                 reconnect_attempts := reconnect_attempts g + 1\<rparr>))"
  by pat_completeness auto
termination
  by (relation "measure (\<lambda>(env, g). nat (6 - reconnect_attempts g))")
     (auto simp: socket_call_def)

declare reconnect_loop.simps [simp del]

text \<open>
  \<open>process_disconnection\<close> has no \<open>raise\<close> and emits no signal; it returns \<open>None\<close>
  on each of its paths.
\<close>

definition process_disconnection :: "bool list \<Rightarrow> gateway \<Rightarrow> py_error option \<times> gateway" where
  "process_disconnection env g =
     (if \<not> should_reconnect g then (None, g)
      else
        (let g1 = reconnect_loop env g
         in (None, if socket_valid g1 then g1\<lparr>should_reconnect := False\<rparr> else g1)))"

text \<open>
  \<^verbatim>\<open>
  if message == 'PING :tmi.twitch.tv\r\n':
      self.send_raw_message('PONG :tmi.twitch.tv', ignore_limit=True)
  elif message == ':tmi.twitch.tv RECONNECT\r\n':
      self.reconnect()
  else:
      self.on_message.emit(message)
  \<close>
\<close>

definition process_message :: "string \<Rightarrow> gateway \<Rightarrow> py_error option \<times> gateway" where
  "process_message message g =
     (if message = ''PING :tmi.twitch.tv'' @ CRLF
        then (None, send_raw_message ''PONG :tmi.twitch.tv'' True g)
      else if message = '':tmi.twitch.tv RECONNECT'' @ CRLF
        then reconnect g
      else (None, emit (on_message message) g))"

section \<open>Sequences of calls\<close>

text \<open>
  The calls that the owner of a gateway, its timers and its socket make on it, and two
  moves of the environment: time passes, and the socket becomes valid or invalid. An
  exception ends the call that raised it and leaves the gateway as it was at that
  moment; the next call finds it so.
\<close>

datatype call =
    Join string
  | Part string
  | SendRawMessage string bool
  | SendPrivMessage string string
  | SendWhisperMessage string string
  | WaitForWhisper bool
  | ResetPrivLimit bool
  | ResetJoinLimit bool
  | ResetWhisperSeconds bool
  | ResetWhisperMinutes bool
  | ResetWhisperDaily bool
  | ProcessMessage string
  | ProcessConnection
  | ProcessDisconnection "bool list"
  | Reconnect
  | TimePasses nat
  | SocketBecomes bool

fun step :: "call \<Rightarrow> gateway \<Rightarrow> gateway" where
  "step (Join channel) g = join channel g"
| "step (Part channel) g = part channel g"
| "step (SendRawMessage content ignore_limit) g = send_raw_message content ignore_limit g"
| "step (SendPrivMessage channel content) g = send_priv_message channel content g"
| "step (SendWhisperMessage user content) g = snd (send_whisper_message user content g)"
| "step (WaitForWhisper include_accounts) g =
     (case wait_for_whisper include_accounts g of Inl e \<Rightarrow> g | Inr g1 \<Rightarrow> g1)"
| "step (ResetPrivLimit automated) g = reset_priv_limit automated g"
| "step (ResetJoinLimit automated) g = reset_join_limit automated g"
| "step (ResetWhisperSeconds automated) g = reset_whisper_seconds automated g"
| "step (ResetWhisperMinutes automated) g = snd (reset_whisper_minutes automated g)"
| "step (ResetWhisperDaily automated) g = snd (reset_whisper_daily automated g)"
| "step (ProcessMessage message) g = snd (process_message message g)"
| "step ProcessConnection g = process_connection g"
| "step (ProcessDisconnection env) g = snd (process_disconnection env g)"
| "step Reconnect g = snd (reconnect g)"
| "step (TimePasses d) g = g\<lparr>clock := clock g + int d\<rparr>"
| "step (SocketBecomes v) g = g\<lparr>socket_valid := v\<rparr>"

definition run :: "call list \<Rightarrow> gateway \<Rightarrow> gateway" where
  "run calls g = foldl (\<lambda>h c. step c h) g calls"

section \<open>The invariant of the two counters\<close>

text \<open>
  The capacities are the ones the constructor sets, and neither counter is above its
  capacity.
\<close>

definition within_limits :: "gateway \<Rightarrow> bool" where
  "within_limits g =
     (priv_limit g = 20 \<and> join_limit g = 50 \<and>
      priv_sent g \<le> priv_limit g \<and> join_sent g \<le> join_limit g)"

section \<open>Example inputs\<close>

text \<open>Forty-one different recipients of a whisper: \<open>u\<close>, \<open>uu\<close>, \<open>uuu\<close>, ...\<close>

definition whisper_recipients :: "string list" where
  "whisper_recipients = map (\<lambda>n. replicate (Suc n) CHR ''u'') [0..<41]"

section \<open>The lines handed to the socket\<close>

text \<open>
  A line as \<open>send_raw_message\<close> hands it to the socket: with \<open>\r\n\<close> appended
  unless it ends with it already.
\<close>

definition terminated :: "string \<Rightarrow> string" where
  "terminated content = (if endswith content CRLF then content else content @ CRLF)"

text \<open>
  The lines of the handshake, in the order in which \<open>process_connection\<close> sends them:
  the login, the three capability requests, and a JOIN for every channel of the
  membership list.
\<close>

definition handshake_lines :: "gateway \<Rightarrow> string list" where
  "handshake_lines g =
     [''PASS '' @ token g, ''NICK '' @ nick g,
      ''CAP REQ :twitch.tv/membership'', ''CAP REQ :twitch.tv/tags'',
      ''CAP REQ :twitch.tv/commands'']
     @ map (\<lambda>channel. ''JOIN #'' @ channel) (channels g)"

section \<open>Keep-alive\<close>

text \<open>
  Claim C8. Processing the inbound line \<open>PING :tmi.twitch.tv\r\n\<close> hands the reply
  \<open>PONG :tmi.twitch.tv\<close>, with its terminator, to the socket and changes nothing else
  of the gateway: the chat-send counter, the join/auth counter, the two whisper counters
  and the list of whispered accounts are as they were, and no exception is raised.
\<close>

theorem process_message_ping:
  "process_message (''PING :tmi.twitch.tv'' @ CRLF) g =
     (None, g\<lparr>socket_calls :=
                 socket_calls g @ [SendTextMessage (''PONG :tmi.twitch.tv'' @ CRLF)]\<rparr>)
   \<and> priv_sent (snd (process_message (''PING :tmi.twitch.tv'' @ CRLF) g)) = priv_sent g
   \<and> join_sent (snd (process_message (''PING :tmi.twitch.tv'' @ CRLF) g)) = join_sent g
   \<and> whispers_this_second (snd (process_message (''PING :tmi.twitch.tv'' @ CRLF) g))
       = whispers_this_second g
   \<and> whispers_this_minute (snd (process_message (''PING :tmi.twitch.tv'' @ CRLF) g))
       = whispers_this_minute g
   \<and> whispered_accounts (snd (process_message (''PING :tmi.twitch.tv'' @ CRLF) g))
       = whispered_accounts g"
  by (simp add: process_message_def send_raw_message_def endswith_def CRLF_def)

section \<open>Rate-limit counters\<close>

lemma lower_char_not_upper_C: "lower_char c \<noteq> CHR ''C''"
  by (auto simp: lower_char_def split: option.splits if_splits)

lemma cap_req_never: "\<not> startswith (lower content) ''CAP REQ''"
proof (cases content)
  case Nil
  then show ?thesis by (simp add: startswith_def lower_def)
next
  case (Cons c cs)
  then show ?thesis using lower_char_not_upper_C [of c]
    by (auto simp: startswith_def lower_def)
qed

lemma within_limits_wait_priv: "within_limits g \<Longrightarrow> within_limits (wait_and_increment_priv g)"
  by (auto simp: within_limits_def wait_and_increment_priv_def wait_for_signal_def
        reset_priv_limit_def emit_def singleShot_def Let_def)

lemma within_limits_wait_join: "within_limits g \<Longrightarrow> within_limits (wait_and_increment_join g)"
  by (auto simp: within_limits_def wait_and_increment_join_def wait_for_signal_def
        reset_join_limit_def emit_def singleShot_def Let_def)

lemma within_limits_socket_calls [simp]:
  "within_limits (g\<lparr>socket_calls := x\<rparr>) = within_limits g"
  "within_limits (g\<lparr>channels := cs\<rparr>) = within_limits g"
  "within_limits (g\<lparr>priv_started := b\<rparr>) = within_limits g"
  "within_limits (g\<lparr>join_started := b\<rparr>) = within_limits g"
  "within_limits (g\<lparr>should_reconnect := b\<rparr>) = within_limits g"
  "within_limits (g\<lparr>clock := t\<rparr>) = within_limits g"
  "within_limits (g\<lparr>socket_valid := b\<rparr>) = within_limits g"
  "within_limits (g\<lparr>whispered_accounts := a\<rparr>) = within_limits g"
  "within_limits (g\<lparr>whisper_reset := w\<rparr>) = within_limits g"
  "within_limits (g\<lparr>whispers_this_second := i\<rparr>) = within_limits g"
  "within_limits (g\<lparr>whispers_this_minute := i\<rparr>) = within_limits g"
  "within_limits (g\<lparr>timer_starts := ts\<rparr>) = within_limits g"
  "within_limits (g\<lparr>reconnect_attempts := i\<rparr>) = within_limits g"
  "within_limits (emit sig g) = within_limits g"
  "within_limits (singleShot ms cb g) = within_limits g"
  "within_limits (socket_call sc g) = within_limits g"
  by (simp_all add: within_limits_def emit_def singleShot_def socket_call_def)

lemma within_limits_send_raw:
  "within_limits g \<Longrightarrow> within_limits (send_raw_message content ignore_limit g)"
  by (simp add: send_raw_message_def Let_def within_limits_wait_priv within_limits_wait_join)

lemma within_limits_send_priv:
  "within_limits g \<Longrightarrow> within_limits (send_priv_message channel content g)"
  by (simp add: send_priv_message_def Let_def within_limits_send_raw within_limits_wait_priv)

lemma within_limits_join: "within_limits g \<Longrightarrow> within_limits (join channel g)"
  by (simp add: join_def Let_def within_limits_send_raw)

lemma within_limits_part: "within_limits g \<Longrightarrow> within_limits (part channel g)"
  by (simp add: part_def Let_def within_limits_send_raw)

lemma within_limits_reset_priv: "within_limits g \<Longrightarrow> within_limits (reset_priv_limit a g)"
  by (simp add: reset_priv_limit_def Let_def) (simp add: within_limits_def)

lemma within_limits_reset_join: "within_limits g \<Longrightarrow> within_limits (reset_join_limit a g)"
  by (simp add: reset_join_limit_def Let_def) (simp add: within_limits_def)

lemma within_limits_reset_seconds: "within_limits g \<Longrightarrow> within_limits (reset_whisper_seconds a g)"
  by (simp add: reset_whisper_seconds_def Let_def)

lemma within_limits_reset_minutes:
  "within_limits g \<Longrightarrow> within_limits (snd (reset_whisper_minutes a g))"
  by (simp add: reset_whisper_minutes_def Let_def split: option.splits)

lemma within_limits_clear: "within_limits g \<Longrightarrow> within_limits (clear_whisper_accounts a g)"
  by (simp add: clear_whisper_accounts_def Let_def)

lemma within_limits_reset_daily:
  "within_limits g \<Longrightarrow> within_limits (snd (reset_whisper_daily a g))"
  by (simp add: reset_whisper_daily_def within_limits_clear split: option.splits)

lemma within_limits_wait_for_whisper:
  "within_limits g \<Longrightarrow> wait_for_whisper b g = Inr g1 \<Longrightarrow> within_limits g1"
  by (auto simp: wait_for_whisper_def wait_for_signal_def within_limits_reset_seconds
        within_limits_reset_minutes within_limits_clear split: if_splits accounts.splits)

lemma within_limits_increment_whisper:
  "within_limits g \<Longrightarrow> within_limits (snd (increment_whisper user g))"
  by (simp add: increment_whisper_def split: accounts.splits)

lemma within_limits_send_whisper:
  "within_limits g \<Longrightarrow> within_limits (snd (send_whisper_message user content g))"
  by (auto simp: send_whisper_message_def within_limits_increment_whisper within_limits_send_raw
        split: sum.splits dest: within_limits_wait_for_whisper)

lemma within_limits_foldl:
  "(\<And>h c. within_limits h \<Longrightarrow> within_limits (f h c)) \<Longrightarrow> within_limits g \<Longrightarrow>
   within_limits (foldl f g cs)"
  by (induction cs arbitrary: g) simp_all

lemma within_limits_process_connection:
  "within_limits g \<Longrightarrow> within_limits (process_connection g)"
  unfolding process_connection_def Let_def
  by (auto intro!: within_limits_foldl within_limits_send_raw)

lemma within_limits_reconnect_loop:
  "within_limits g \<Longrightarrow> within_limits (reconnect_loop env g)"
proof (induction env g rule: reconnect_loop.induct)
  case (1 env g)
  show ?case
  proof (cases "socket_valid g \<or> reconnect_attempts g > 5")
    case True
    with "1.prems" show ?thesis by (auto simp: reconnect_loop.simps [of env g])
  next
    case False
    with 1 show ?thesis by (simp add: reconnect_loop.simps [of env g])
  qed
qed

lemma within_limits_process_disconnection:
  "within_limits g \<Longrightarrow> within_limits (snd (process_disconnection env g))"
  by (simp add: process_disconnection_def Let_def within_limits_reconnect_loop)

lemma within_limits_reconnect: "within_limits g \<Longrightarrow> within_limits (snd (reconnect g))"
  by (auto simp: reconnect_def gateway_disconnect_def gateway_connect_def split: prod.splits option.splits if_splits)

lemma within_limits_process_message:
  "within_limits g \<Longrightarrow> within_limits (snd (process_message message g))"
  by (simp add: process_message_def within_limits_send_raw within_limits_reconnect)

lemma within_limits_step: "within_limits g \<Longrightarrow> within_limits (step c g)"
proof (cases c)
  case (WaitForWhisper b)
  assume "within_limits g"
  then show ?thesis using WaitForWhisper
    by (auto split: sum.splits dest: within_limits_wait_for_whisper)
qed (simp_all add: within_limits_send_raw within_limits_send_priv within_limits_join within_limits_part
      within_limits_reset_priv within_limits_reset_join within_limits_reset_seconds
      within_limits_reset_minutes within_limits_reset_daily within_limits_send_whisper
      within_limits_process_connection within_limits_process_disconnection
      within_limits_reconnect within_limits_process_message)

lemma within_limits_run: "within_limits g \<Longrightarrow> within_limits (run calls g)"
  unfolding run_def by (induction calls arbitrary: g) (simp_all add: within_limits_step)

lemma within_limits_new: "within_limits (new_Gateway n t w)"
  by (simp add: within_limits_def new_Gateway_def)

text \<open>
  Claim C2. Whatever calls are made on a gateway, one after the other (sends of every
  kind, resets, inbound lines, connection events), the PRIVMSG counter is never above
  its capacity of 20 and the join/auth counter never above its capacity of 50. A send
  that finds its counter at capacity goes on only after the reset of that counter, which
  sets it to zero, so that the counter is 1 after the send; below capacity the send adds
  one.
\<close>

theorem counters_within_capacity:
  "priv_sent (run calls (new_Gateway n t w)) \<le> 20 \<and>
   join_sent (run calls (new_Gateway n t w)) \<le> 50 \<and>
   priv_limit (run calls (new_Gateway n t w)) = 20 \<and>
   join_limit (run calls (new_Gateway n t w)) = 50 \<and>
   priv_sent (wait_and_increment_priv g)
     = (if priv_sent g \<ge> priv_limit g then 1 else priv_sent g + 1) \<and>
   join_sent (wait_and_increment_join g)
     = (if join_sent g \<ge> join_limit g then 1 else join_sent g + 1)"
proof -
  have "within_limits (run calls (new_Gateway n t w))"
    by (rule within_limits_run [OF within_limits_new])
  then show ?thesis
    by (simp add: within_limits_def wait_and_increment_priv_def wait_and_increment_join_def
          wait_for_signal_def reset_priv_limit_def reset_join_limit_def emit_def
          singleShot_def Let_def)
qed

text \<open>
  Twenty-one chat messages in a row on a fresh gateway: the twenty-first finds the
  counter at 20, waits for the reset and leaves the counter at 1.
\<close>

theorem counters_within_capacity_witness:
  "priv_sent (run (replicate 21 (SendPrivMessage ''foo'' ''hi'')) (new_Gateway ''bot'' ''foobar'' None)) \<le> 20 \<and>
   join_sent (run (replicate 21 (SendPrivMessage ''foo'' ''hi'')) (new_Gateway ''bot'' ''foobar'' None)) \<le> 50 \<and>
   priv_sent (wait_and_increment_priv ((new_Gateway ''bot'' ''foobar'' None)\<lparr>priv_sent := 20\<rparr>)) = 1"
  using counters_within_capacity [of "replicate 21 (SendPrivMessage ''foo'' ''hi'')" "''bot''"
      "''foobar''" None "(new_Gateway ''bot'' ''foobar'' None)\<lparr>priv_sent := 20\<rparr>"]
  by (simp add: new_Gateway_def)

section \<open>Which counter a raw send consumes\<close>

lemma send_raw_message_limited:
  "send_raw_message content False g =
     (wait_and_increment_join g)\<lparr>socket_calls := socket_calls g @
        [SendTextMessage (if endswith content CRLF then content else content @ CRLF)]\<rparr>"
  by (simp add: send_raw_message_def Let_def cap_req_never wait_and_increment_join_def
        wait_for_signal_def reset_join_limit_def emit_def singleShot_def)

lemma priv_sent_wait_join: "priv_sent (wait_and_increment_join g) = priv_sent g"
  by (simp add: wait_and_increment_join_def wait_for_signal_def reset_join_limit_def
        emit_def singleShot_def Let_def)

lemma join_sent_wait_join:
  "join_sent (wait_and_increment_join g) = (if join_sent g \<ge> join_limit g then 1 else join_sent g + 1)"
  by (simp add: wait_and_increment_join_def wait_for_signal_def reset_join_limit_def
        emit_def singleShot_def Let_def)

lemma priv_sent_foldl:
  "(\<And>h c. priv_sent (f h c) = priv_sent h) \<Longrightarrow> priv_sent (foldl f g cs) = priv_sent g"
  by (induction cs arbitrary: g) simp_all

lemma priv_sent_process_connection: "priv_sent (process_connection g) = priv_sent g"
  unfolding process_connection_def Let_def
  by (simp add: priv_sent_foldl send_raw_message_limited priv_sent_wait_join singleShot_def)

lemma wait_for_whisper_buckets:
  "wait_for_whisper b g = Inr g1 \<Longrightarrow>
   priv_sent g1 = priv_sent g \<and> join_sent g1 = join_sent g \<and> join_limit g1 = join_limit g"
  by (auto simp: wait_for_whisper_def wait_for_signal_def reset_whisper_seconds_def
        reset_whisper_minutes_def clear_whisper_accounts_def emit_def singleShot_def Let_def
        split: if_splits accounts.splits option.splits)

lemma wait_for_whisper_accounts:
  "whispered_accounts g = PyList accs \<Longrightarrow> \<exists>g1. wait_for_whisper False g = Inr g1"
  by (simp add: wait_for_whisper_def)

lemma send_raw_message_frame:
  "token (send_raw_message content False h) = token h"
  "nick (send_raw_message content False h) = nick h"
  "channels (send_raw_message content False h) = channels h"
  "join_limit (send_raw_message content False h) = join_limit h"
  "socket_calls (send_raw_message content False h)
     = socket_calls h @ [SendTextMessage (terminated content)]"
  "join_sent (send_raw_message content False h) = join_sent (wait_and_increment_join h)"
  by (simp_all add: send_raw_message_limited wait_and_increment_join_def wait_for_signal_def
        reset_join_limit_def emit_def singleShot_def Let_def terminated_def)

lemma process_connection_valid:
  assumes "socket_valid g"
  shows "process_connection g =
           foldl (\<lambda>h line. send_raw_message line False h)
             (if \<not> join_started g
              then (singleShot (join_period g * 1000) reset_join_limit_auto g)\<lparr>join_started := True\<rparr>
              else g)
             (handshake_lines g)"
  using assms
  by (simp add: process_connection_def handshake_lines_def Let_def foldl_map
        send_raw_message_frame singleShot_def)

lemma socket_calls_foldl_send:
  "socket_calls (foldl (\<lambda>h line. send_raw_message line False h) h ls)
     = socket_calls h @ map (\<lambda>line. SendTextMessage (terminated line)) ls"
  by (induction ls arbitrary: h) (simp_all add: send_raw_message_frame)

lemma join_limit_wait_join: "join_limit (wait_and_increment_join h) = join_limit h"
  by (simp add: wait_and_increment_join_def wait_for_signal_def reset_join_limit_def
        emit_def singleShot_def Let_def)

lemma wait_and_increment_join_depends:
  "join_sent h = join_sent h' \<Longrightarrow> join_limit h = join_limit h' \<Longrightarrow>
   join_sent (wait_and_increment_join h) = join_sent (wait_and_increment_join h') \<and>
   join_limit (wait_and_increment_join h) = join_limit (wait_and_increment_join h')"
  by (simp add: wait_and_increment_join_def wait_for_signal_def reset_join_limit_def
        emit_def singleShot_def Let_def)

lemma join_sent_foldl_send:
  "join_sent h = join_sent h' \<Longrightarrow> join_limit h = join_limit h' \<Longrightarrow>
   join_sent (foldl (\<lambda>h line. send_raw_message line False h) h ls)
     = join_sent ((wait_and_increment_join ^^ length ls) h') \<and>
   join_limit (foldl (\<lambda>h line. send_raw_message line False h) h ls)
     = join_limit ((wait_and_increment_join ^^ length ls) h')"
proof (induction ls arbitrary: h h')
  case Nil
  then show ?case by simp
next
  case (Cons l ls)
  have "join_sent (send_raw_message l False h) = join_sent (wait_and_increment_join h')"
    using wait_and_increment_join_depends [OF Cons.prems]
    by (simp add: send_raw_message_frame)
  moreover have "join_limit (send_raw_message l False h) = join_limit (wait_and_increment_join h')"
    using Cons.prems by (simp add: send_raw_message_frame join_limit_wait_join)
  ultimately have "join_sent (send_raw_message l False h) = join_sent (wait_and_increment_join h') \<and>
        join_limit (send_raw_message l False h) = join_limit (wait_and_increment_join h')"
    by simp
  then show ?case
    using Cons.IH [of "send_raw_message l False h" "wait_and_increment_join h'"]
    by (simp add: funpow_swap1)
qed

lemma join_sent_funpow_below:
  "join_sent h + int n \<le> join_limit h \<Longrightarrow>
   join_sent ((wait_and_increment_join ^^ n) h) = join_sent h + int n \<and>
   join_limit ((wait_and_increment_join ^^ n) h) = join_limit h"
proof (induction n)
  case 0
  then show ?case by simp
next
  case (Suc n)
  then show ?case
    by (simp add: wait_and_increment_join_def wait_for_signal_def reset_join_limit_def
          emit_def singleShot_def Let_def)
qed

lemma length_handshake_lines: "length (handshake_lines g) = 5 + length (channels g)"
  by (simp add: handshake_lines_def)

lemma process_connection_handshake:
  assumes "socket_valid g"
  shows "socket_calls (process_connection g)
           = socket_calls g @ map (\<lambda>line. SendTextMessage (terminated line)) (handshake_lines g)"
    and "join_sent (process_connection g)
           = join_sent ((wait_and_increment_join ^^ (5 + length (channels g))) g)"
proof -
  let ?g1 = "if \<not> join_started g
              then (singleShot (join_period g * 1000) reset_join_limit_auto g)\<lparr>join_started := True\<rparr>
              else g"
  have g1: "socket_calls ?g1 = socket_calls g" "join_sent ?g1 = join_sent g"
    "join_limit ?g1 = join_limit g"
    by (simp_all add: singleShot_def)
  show "socket_calls (process_connection g)
           = socket_calls g @ map (\<lambda>line. SendTextMessage (terminated line)) (handshake_lines g)"
    unfolding process_connection_valid [OF assms] socket_calls_foldl_send g1 ..
  show "join_sent (process_connection g)
           = join_sent ((wait_and_increment_join ^^ (5 + length (channels g))) g)"
    unfolding process_connection_valid [OF assms]
    using join_sent_foldl_send [OF g1(2) g1(3), of "handshake_lines g"]
    by (simp only: length_handshake_lines)
qed

text \<open>
  Claim C10. A call of \<open>send_raw_message\<close> with \<open>ignore_limit\<close> false consumes the
  join/auth counter whatever the line is: the test for \<open>CAP REQ\<close> compares a text in
  lower case with an upper-case prefix and is never true, so the branch through the
  chat-send counter is not taken. The handshake of \<open>process_connection\<close> on a valid
  socket hands its lines (PASS, NICK, three CAP REQ, a JOIN for each channel) to the
  socket, each through the join/auth counter, which goes up by one per line below
  capacity; on a socket that is not valid it does nothing. The chat-send counter is as it
  was after the send, after the handshake and after \<open>send_whisper_message\<close>; the whisper
  line consumes the join/auth counter, unless the call raises before it sends, which it
  does once the list of accounts holds an integer.
\<close>

theorem send_raw_message_join_bucket:
  "\<not> startswith (lower content) ''CAP REQ'' \<and>
   send_raw_message content False g =
     (wait_and_increment_join g)\<lparr>socket_calls := socket_calls g @
        [SendTextMessage (if endswith content CRLF then content else content @ CRLF)]\<rparr> \<and>
   priv_sent (send_raw_message content False g) = priv_sent g \<and>
   join_sent (send_raw_message content False g)
     = (if join_sent g \<ge> join_limit g then 1 else join_sent g + 1) \<and>
   priv_sent (process_connection g) = priv_sent g \<and>
   (\<not> socket_valid g \<longrightarrow> process_connection g = g) \<and>
   (socket_valid g \<longrightarrow>
      socket_calls (process_connection g)
        = socket_calls g @ map (\<lambda>line. SendTextMessage (terminated line)) (handshake_lines g)) \<and>
   (socket_valid g \<longrightarrow>
      join_sent (process_connection g)
        = join_sent ((wait_and_increment_join ^^ (5 + length (channels g))) g)) \<and>
   (socket_valid g \<and> join_sent g + 5 + int (length (channels g)) \<le> join_limit g \<longrightarrow>
      join_sent (process_connection g) = join_sent g + 5 + int (length (channels g))) \<and>
   priv_sent (snd (send_whisper_message user text g)) = priv_sent g \<and>
   join_sent (snd (send_whisper_message user text g))
     = (case whispered_accounts g of
          PyInt i \<Rightarrow> join_sent g
        | PyList accs \<Rightarrow> (if join_sent g \<ge> join_limit g then 1 else join_sent g + 1))"
proof -
  have whisper: "priv_sent (snd (send_whisper_message user text g)) = priv_sent g \<and>
     join_sent (snd (send_whisper_message user text g))
     = (case whispered_accounts g of
          PyInt i \<Rightarrow> join_sent g
        | PyList accs \<Rightarrow> (if join_sent g \<ge> join_limit g then 1 else join_sent g + 1))"
  proof (cases "whispered_accounts g")
    case (PyInt i)
    then show ?thesis by (simp add: send_whisper_message_def can_whisper_def)
  next
    case (PyList accs)
    show ?thesis
    proof (cases "can_whisper user g")
      case (Inl e)
      with PyList show ?thesis by (simp add: can_whisper_def)
    next
      case (Inr ok)
      obtain g1 where g1: "(if \<not> ok then wait_for_whisper False g else Inr g) = Inr g1"
        using wait_for_whisper_accounts [OF PyList] by (cases ok) auto
      then have same: "priv_sent g1 = priv_sent g \<and> join_sent g1 = join_sent g \<and> join_limit g1 = join_limit g"
        using wait_for_whisper_buckets [of False g g1] by (cases ok) auto
      show ?thesis using PyList Inr g1 same
        by (simp add: send_whisper_message_def increment_whisper_def send_raw_message_limited
              priv_sent_wait_join join_sent_wait_join split: accounts.splits)
    qed
  qed
  have raw: "\<not> startswith (lower content) ''CAP REQ'' \<and>
   send_raw_message content False g =
     (wait_and_increment_join g)\<lparr>socket_calls := socket_calls g @
        [SendTextMessage (if endswith content CRLF then content else content @ CRLF)]\<rparr> \<and>
   priv_sent (send_raw_message content False g) = priv_sent g \<and>
   join_sent (send_raw_message content False g)
     = (if join_sent g \<ge> join_limit g then 1 else join_sent g + 1) \<and>
   priv_sent (process_connection g) = priv_sent g"
    by (simp add: cap_req_never send_raw_message_limited priv_sent_wait_join join_sent_wait_join
          priv_sent_process_connection)
  have invalid: "\<not> socket_valid g \<longrightarrow> process_connection g = g"
    by (simp add: process_connection_def)
  have lines: "socket_valid g \<longrightarrow>
      socket_calls (process_connection g)
        = socket_calls g @ map (\<lambda>line. SendTextMessage (terminated line)) (handshake_lines g)"
    using process_connection_handshake(1) by blast
  have count: "socket_valid g \<longrightarrow>
      join_sent (process_connection g)
        = join_sent ((wait_and_increment_join ^^ (5 + length (channels g))) g)"
    using process_connection_handshake(2) by blast
  have below: "socket_valid g \<and> join_sent g + 5 + int (length (channels g)) \<le> join_limit g \<longrightarrow>
      join_sent (process_connection g) = join_sent g + 5 + int (length (channels g))"
  proof (intro impI, elim conjE)
    assume v: "socket_valid g"
      and le: "join_sent g + 5 + int (length (channels g)) \<le> join_limit g"
    have "join_sent g + int (5 + length (channels g)) \<le> join_limit g"
      using le by simp
    from join_sent_funpow_below [OF this] process_connection_handshake(2) [OF v]
    show "join_sent (process_connection g) = join_sent g + 5 + int (length (channels g))"
      by simp
  qed
  from raw invalid lines count below whisper show ?thesis by blast
qed

text \<open>
  On a fresh gateway a capability request and a whisper each take the join/auth counter
  from 0 to 1, and the handshake on a valid socket sends its five lines and takes it
  to 5; the chat-send counter stays at 0.
\<close>

theorem send_raw_message_join_bucket_witness:
  "priv_sent (send_raw_message ''CAP REQ :twitch.tv/tags'' False default_Gateway) = 0 \<and>
   join_sent (send_raw_message ''CAP REQ :twitch.tv/tags'' False default_Gateway) = 1 \<and>
   priv_sent (snd (send_whisper_message ''bob'' ''hi'' default_Gateway)) = 0 \<and>
   join_sent (snd (send_whisper_message ''bob'' ''hi'' default_Gateway)) = 1 \<and>
   process_connection default_Gateway = default_Gateway \<and>
   socket_calls (process_connection (default_Gateway\<lparr>socket_valid := True\<rparr>))
     = [SendTextMessage (''PASS foobar'' @ CRLF), SendTextMessage (''NICK justinfan2389'' @ CRLF),
        SendTextMessage (''CAP REQ :twitch.tv/membership'' @ CRLF),
        SendTextMessage (''CAP REQ :twitch.tv/tags'' @ CRLF),
        SendTextMessage (''CAP REQ :twitch.tv/commands'' @ CRLF)] \<and>
   join_sent (process_connection (default_Gateway\<lparr>socket_valid := True\<rparr>)) = 5 \<and>
   priv_sent (process_connection (default_Gateway\<lparr>socket_valid := True\<rparr>)) = 0"
proof -
  note t = send_raw_message_join_bucket
    [of "''CAP REQ :twitch.tv/tags''" default_Gateway "''bob''" "''hi''"]
  note u = send_raw_message_join_bucket
    [of "''x''" "default_Gateway\<lparr>socket_valid := True\<rparr>" "''bob''" "''hi''"]
  have d: "priv_sent default_Gateway = 0" "join_sent default_Gateway = 0"
    "join_limit default_Gateway = 50" "whispered_accounts default_Gateway = PyList []"
    "\<not> socket_valid default_Gateway" "channels default_Gateway = []"
    "token default_Gateway = ''foobar''" "nick default_Gateway = ''justinfan2389''"
    "socket_calls default_Gateway = []"
    by (simp_all add: default_Gateway_def new_Gateway_def)
  have "priv_sent (send_raw_message ''CAP REQ :twitch.tv/tags'' False default_Gateway)
          = priv_sent default_Gateway"
    using t by blast
  moreover have "join_sent (send_raw_message ''CAP REQ :twitch.tv/tags'' False default_Gateway)
          = (if join_sent default_Gateway \<ge> join_limit default_Gateway then 1
             else join_sent default_Gateway + 1)"
    using t by blast
  moreover have "priv_sent (snd (send_whisper_message ''bob'' ''hi'' default_Gateway))
          = priv_sent default_Gateway"
    using t by blast
  moreover have "join_sent (snd (send_whisper_message ''bob'' ''hi'' default_Gateway))
          = (case whispered_accounts default_Gateway of
               PyInt i \<Rightarrow> join_sent default_Gateway
             | PyList accs \<Rightarrow> (if join_sent default_Gateway \<ge> join_limit default_Gateway then 1
                                else join_sent default_Gateway + 1))"
    using t by blast
  moreover have "process_connection default_Gateway = default_Gateway"
    using t d(5) by blast
  moreover have "socket_calls (process_connection (default_Gateway\<lparr>socket_valid := True\<rparr>))
          = socket_calls (default_Gateway\<lparr>socket_valid := True\<rparr>)
            @ map (\<lambda>line. SendTextMessage (terminated line))
                (handshake_lines (default_Gateway\<lparr>socket_valid := True\<rparr>))"
    using u by simp
  moreover have "join_sent (process_connection (default_Gateway\<lparr>socket_valid := True\<rparr>))
          = join_sent (default_Gateway\<lparr>socket_valid := True\<rparr>) + 5
            + int (length (channels (default_Gateway\<lparr>socket_valid := True\<rparr>)))"
    using u d by simp
  moreover have "priv_sent (process_connection (default_Gateway\<lparr>socket_valid := True\<rparr>))
          = priv_sent (default_Gateway\<lparr>socket_valid := True\<rparr>)"
    using u by blast
  ultimately show ?thesis
    by (simp add: d handshake_lines_def terminated_def endswith_def CRLF_def)
qed

section \<open>Joining and leaving channels\<close>

lemma channels_wait_join: "channels (wait_and_increment_join g) = channels g"
  by (simp add: wait_and_increment_join_def wait_for_signal_def reset_join_limit_def
        emit_def singleShot_def Let_def)

lemma socket_calls_wait_join: "socket_calls (wait_and_increment_join g) = socket_calls g"
  by (simp add: wait_and_increment_join_def wait_for_signal_def reset_join_limit_def
        emit_def singleShot_def Let_def)

lemma join_state:
  "join channel g =
     (wait_and_increment_join g)
       \<lparr>socket_calls := socket_calls g @ [SendTextMessage (terminated (''JOIN #'' @ channel))],
        channels := (if channel \<in> set (channels g) then channels g
                     else channels g @ [channel])\<rparr>"
  by (intro gateway.equality)
     (simp_all add: join_def Let_def send_raw_message_limited channels_wait_join
        socket_calls_wait_join terminated_def)

lemma part_state:
  "part channel g =
     (wait_and_increment_join g)
       \<lparr>socket_calls := socket_calls g @ [SendTextMessage (terminated (''PART #'' @ channel))],
        channels := (if channel \<in> set (channels g) then remove1 channel (channels g)
                     else channels g)\<rparr>"
  by (intro gateway.equality)
     (simp_all add: part_def Let_def send_raw_message_limited channels_wait_join
        socket_calls_wait_join terminated_def)

text \<open>
  Claim C6, as stated, fails on \<open>Gateway.join\<close> and \<open>Gateway.part\<close>: a second
  \<open>join("foo")\<close> on a fresh gateway returns normally and hands a second
  \<open>JOIN #foo\<close> line to the socket, and \<open>part("foo")\<close> of a channel that was never
  joined sends \<open>PART #foo\<close>.
\<close>

theorem join_twice_sends_twice:
  "socket_calls (join ''foo'' (join ''foo'' default_Gateway))
     = [SendTextMessage (''JOIN #foo'' @ CRLF), SendTextMessage (''JOIN #foo'' @ CRLF)] \<and>
   channels (join ''foo'' (join ''foo'' default_Gateway)) = [''foo''] \<and>
   socket_calls (part ''foo'' default_Gateway) = [SendTextMessage (''PART #foo'' @ CRLF)]"
  by (simp add: join_def part_def send_raw_message_limited socket_calls_wait_join
        channels_wait_join endswith_def CRLF_def default_Gateway_def new_Gateway_def)

text \<open>
  Claim C6, amended. \<open>Gateway.join\<close> and \<open>Gateway.part\<close> have no failing path and no
  test before they send: each call hands its \<open>JOIN\<close> or \<open>PART\<close> line to the socket
  through the join/auth counter, which it consumes. A join of a channel that is in the
  membership list leaves the list as it is, and a join of any other channel appends it;
  a part of a channel that is not in the list leaves the list as it is, and a part of a
  channel in the list removes it. The two equations give the whole gateway after the
  call.
\<close>

theorem join_part_membership:
  "join channel g =
     (wait_and_increment_join g)
       \<lparr>socket_calls := socket_calls g @ [SendTextMessage (terminated (''JOIN #'' @ channel))],
        channels := (if channel \<in> set (channels g) then channels g
                     else channels g @ [channel])\<rparr> \<and>
   part channel g =
     (wait_and_increment_join g)
       \<lparr>socket_calls := socket_calls g @ [SendTextMessage (terminated (''PART #'' @ channel))],
        channels := (if channel \<in> set (channels g) then remove1 channel (channels g)
                     else channels g)\<rparr> \<and>
   join_sent (join channel g) = (if join_sent g \<ge> join_limit g then 1 else join_sent g + 1) \<and>
   join_sent (part channel g) = (if join_sent g \<ge> join_limit g then 1 else join_sent g + 1) \<and>
   socket_calls (join channel g)
     = socket_calls g @ [SendTextMessage (terminated (''JOIN #'' @ channel))] \<and>
   socket_calls (part channel g)
     = socket_calls g @ [SendTextMessage (terminated (''PART #'' @ channel))] \<and>
   (channel \<in> set (channels g) \<longrightarrow>
      channels (join channel g) = channels g \<and>
      channels (part channel g) = remove1 channel (channels g)) \<and>
   (channel \<notin> set (channels g) \<longrightarrow>
      channels (join channel g) = channels g @ [channel] \<and>
      channels (part channel g) = channels g)"
proof -
  note j = join_state [of channel g]
  note p = part_state [of channel g]
  have "join_sent (join channel g) = (if join_sent g \<ge> join_limit g then 1 else join_sent g + 1)"
    by (simp add: j join_sent_wait_join)
  moreover have "join_sent (part channel g) = (if join_sent g \<ge> join_limit g then 1 else join_sent g + 1)"
    by (simp add: p join_sent_wait_join)
  moreover have "socket_calls (join channel g)
     = socket_calls g @ [SendTextMessage (terminated (''JOIN #'' @ channel))]"
    by (simp add: j)
  moreover have "socket_calls (part channel g)
     = socket_calls g @ [SendTextMessage (terminated (''PART #'' @ channel))]"
    by (simp add: p)
  moreover have "channel \<in> set (channels g) \<longrightarrow>
      channels (join channel g) = channels g \<and>
      channels (part channel g) = remove1 channel (channels g)"
    by (simp add: j p)
  moreover have "channel \<notin> set (channels g) \<longrightarrow>
      channels (join channel g) = channels g @ [channel] \<and>
      channels (part channel g) = channels g"
    by (simp add: j p)
  ultimately show ?thesis using j p by blast
qed

text \<open>
  On a fresh gateway: a first join of \<open>foo\<close> records it and takes the counter to 1, a
  second join sends again and records nothing new, a part of \<open>foo\<close> after the join
  removes it, and a part of \<open>foo\<close> before any join sends its line all the same.
\<close>

theorem join_part_membership_witness:
  "channels (join ''foo'' default_Gateway) = [''foo''] \<and>
   join_sent (join ''foo'' default_Gateway) = 1 \<and>
   channels (join ''foo'' (join ''foo'' default_Gateway)) = [''foo''] \<and>
   length (socket_calls (join ''foo'' (join ''foo'' default_Gateway))) = 2 \<and>
   channels (part ''foo'' (join ''foo'' default_Gateway)) = [] \<and>
   channels (part ''foo'' default_Gateway) = [] \<and>
   socket_calls (part ''foo'' default_Gateway) = [SendTextMessage (''PART #foo'' @ CRLF)]"
proof -
  have d: "channels default_Gateway = []" "socket_calls default_Gateway = []"
    "join_sent default_Gateway = 0" "join_limit default_Gateway = 50"
    by (simp_all add: default_Gateway_def new_Gateway_def)
  note a = join_part_membership [of "''foo''" default_Gateway]
  note b = join_part_membership [of "''foo''" "join ''foo'' default_Gateway"]
  have absent: "''foo'' \<notin> set (channels default_Gateway)"
    by (simp add: d)
  have "channels (join ''foo'' default_Gateway) = channels default_Gateway @ [''foo'']"
    using a absent by blast
  then have a1: "channels (join ''foo'' default_Gateway) = [''foo'']"
    by (simp add: d)
  have "join_sent (join ''foo'' default_Gateway)
          = (if join_sent default_Gateway \<ge> join_limit default_Gateway then 1
             else join_sent default_Gateway + 1)"
    using a by blast
  then have a2: "join_sent (join ''foo'' default_Gateway) = 1"
    by (simp add: d)
  have "socket_calls (join ''foo'' default_Gateway)
          = socket_calls default_Gateway @ [SendTextMessage (terminated (''JOIN #'' @ ''foo''))]"
    using a by blast
  then have a3: "length (socket_calls (join ''foo'' default_Gateway)) = 1"
    by (simp add: d)
  have "channels (part ''foo'' default_Gateway) = channels default_Gateway"
    using a absent by blast
  then have a4: "channels (part ''foo'' default_Gateway) = []"
    by (simp add: d)
  have "socket_calls (part ''foo'' default_Gateway)
          = socket_calls default_Gateway @ [SendTextMessage (terminated (''PART #'' @ ''foo''))]"
    using a by blast
  then have a5: "socket_calls (part ''foo'' default_Gateway)
          = [SendTextMessage (''PART #foo'' @ CRLF)]"
    by (simp add: d terminated_def endswith_def CRLF_def)
  have present: "''foo'' \<in> set (channels (join ''foo'' default_Gateway))"
    using a1 by simp
  have "channels (join ''foo'' (join ''foo'' default_Gateway))
          = channels (join ''foo'' default_Gateway)"
    using b present by blast
  then have b1: "channels (join ''foo'' (join ''foo'' default_Gateway)) = [''foo'']"
    by (simp add: a1)
  have "socket_calls (join ''foo'' (join ''foo'' default_Gateway))
          = socket_calls (join ''foo'' default_Gateway)
            @ [SendTextMessage (terminated (''JOIN #'' @ ''foo''))]"
    using b by blast
  then have b2: "length (socket_calls (join ''foo'' (join ''foo'' default_Gateway))) = 2"
    by (simp add: a3)
  have "channels (part ''foo'' (join ''foo'' default_Gateway))
          = remove1 ''foo'' (channels (join ''foo'' default_Gateway))"
    using b present by blast
  then have b3: "channels (part ''foo'' (join ''foo'' default_Gateway)) = []"
    by (simp add: a1)
  from a1 a2 b1 b2 b3 a4 a5 show ?thesis by simp
qed

section \<open>Reconnection\<close>

text \<open>One pass through the body of the loop, when the socket is not valid.\<close>

lemma reconnect_loop_step:
  assumes "\<not> socket_valid g" "reconnect_attempts g \<le> 5"
  shows "reconnect_loop env g =
           reconnect_loop (tl env)
             (g\<lparr>socket_calls := socket_calls g @ [SocketOpen (url g)],
                timer_starts := timer_starts g @ [max (reconnect_attempts g * 5) 1],
                socket_valid := (case env of [] \<Rightarrow> False | v # _ \<Rightarrow> v),
                reconnect_attempts := reconnect_attempts g + 1\<rparr>)"
proof -
  have v: "(case env of [] \<Rightarrow> socket_valid g | v # _ \<Rightarrow> v)
             = (case env of [] \<Rightarrow> False | v # _ \<Rightarrow> v)"
    using assms(1) by (cases env) simp_all
  show ?thesis
    using assms by (subst reconnect_loop.simps) (simp add: socket_call_def v)
qed

lemma reconnect_loop_all_fail:
  "\<not> socket_valid g \<Longrightarrow> \<forall>v \<in> set (take n env). \<not> v \<Longrightarrow> reconnect_attempts g = 6 - int n \<Longrightarrow>
   n \<le> 6 \<Longrightarrow>
   reconnect_loop env g =
     g\<lparr>socket_calls := socket_calls g @ replicate n (SocketOpen (url g)),
       timer_starts := timer_starts g @ map (\<lambda>i. max ((6 - int n + int i) * 5) 1) [0..<n],
       reconnect_attempts := 0\<rparr>"
proof (induction n arbitrary: g env)
  case 0
  then show ?case by (subst reconnect_loop.simps) simp
next
  case (Suc n)
  let ?g = "g\<lparr>socket_calls := socket_calls g @ [SocketOpen (url g)],
              timer_starts := timer_starts g @ [max (reconnect_attempts g * 5) 1],
              socket_valid := (case env of [] \<Rightarrow> False | v # _ \<Rightarrow> v),
              reconnect_attempts := reconnect_attempts g + 1\<rparr>"
  have le: "reconnect_attempts g \<le> 5" using Suc.prems(3) by simp
  have step: "reconnect_loop env g = reconnect_loop (tl env) ?g"
    by (rule reconnect_loop_step [OF Suc.prems(1) le])
  have hd: "(case env of [] \<Rightarrow> False | v # _ \<Rightarrow> v) = False"
    using Suc.prems(2) by (cases env) auto
  have tl: "\<forall>v \<in> set (take n (tl env)). \<not> v"
    using Suc.prems(2) by (cases env) auto
  have u: "url ?g = url g" by (simp add: url_def)
  have "reconnect_loop (tl env) ?g =
     ?g\<lparr>socket_calls := socket_calls ?g @ replicate n (SocketOpen (url ?g)),
        timer_starts := timer_starts ?g @ map (\<lambda>i. max ((6 - int n + int i) * 5) 1) [0..<n],
        reconnect_attempts := 0\<rparr>"
  proof (rule Suc.IH [OF _ tl])
    show "\<not> socket_valid ?g" using hd by simp
    show "reconnect_attempts ?g = 6 - int n" using Suc.prems(3) by simp
    show "n \<le> 6" using Suc.prems(4) by simp
  qed
  also have "\<dots> =
     g\<lparr>socket_calls := socket_calls g @ replicate (Suc n) (SocketOpen (url g)),
       timer_starts := timer_starts g @ map (\<lambda>i. max ((6 - int (Suc n) + int i) * 5) 1) [0..<Suc n],
       reconnect_attempts := 0\<rparr>"
    unfolding u using Suc.prems(1,3) hd
    by (intro gateway.equality) (simp_all add: map_upt_Suc algebra_simps del: upt_Suc)
  finally show ?case using step by simp
qed

lemma reconnect_loop_succeeds:
  "\<not> socket_valid g \<Longrightarrow> env = replicate k False @ True # rest \<Longrightarrow>
   reconnect_attempts g + int k \<le> 5 \<Longrightarrow>
   reconnect_loop env g =
     g\<lparr>socket_calls := socket_calls g @ replicate (Suc k) (SocketOpen (url g)),
       timer_starts := timer_starts g
          @ map (\<lambda>i. max ((reconnect_attempts g + int i) * 5) 1) [0..<Suc k],
       socket_valid := True,
       reconnect_attempts := reconnect_attempts g + int k + 1\<rparr>"
proof (induction k arbitrary: g env)
  case 0
  have le: "reconnect_attempts g \<le> 5" using "0.prems"(3) by simp
  show ?case
    unfolding reconnect_loop_step [OF "0.prems"(1) le, of env]
    using "0.prems"(2)
    by (subst reconnect_loop.simps) simp
next
  case (Suc k)
  let ?g = "g\<lparr>socket_calls := socket_calls g @ [SocketOpen (url g)],
              timer_starts := timer_starts g @ [max (reconnect_attempts g * 5) 1],
              socket_valid := (case env of [] \<Rightarrow> False | v # _ \<Rightarrow> v),
              reconnect_attempts := reconnect_attempts g + 1\<rparr>"
  have le: "reconnect_attempts g \<le> 5" using Suc.prems(3) by simp
  have step: "reconnect_loop env g = reconnect_loop (tl env) ?g"
    by (rule reconnect_loop_step [OF Suc.prems(1) le])
  have hd: "(case env of [] \<Rightarrow> False | v # _ \<Rightarrow> v) = False"
    using Suc.prems(2) by simp
  have tl: "tl env = replicate k False @ True # rest"
    using Suc.prems(2) by simp
  have u: "url ?g = url g" by (simp add: url_def)
  have "reconnect_loop (tl env) ?g =
     ?g\<lparr>socket_calls := socket_calls ?g @ replicate (Suc k) (SocketOpen (url ?g)),
        timer_starts := timer_starts ?g
          @ map (\<lambda>i. max ((reconnect_attempts ?g + int i) * 5) 1) [0..<Suc k],
        socket_valid := True,
        reconnect_attempts := reconnect_attempts ?g + int k + 1\<rparr>"
  proof (rule Suc.IH [OF _ tl])
    show "\<not> socket_valid ?g" using hd by simp
    show "reconnect_attempts ?g + int k \<le> 5" using Suc.prems(3) by simp
  qed
  also have "\<dots> =
     g\<lparr>socket_calls := socket_calls g @ replicate (Suc (Suc k)) (SocketOpen (url g)),
       timer_starts := timer_starts g
          @ map (\<lambda>i. max ((reconnect_attempts g + int i) * 5) 1) [0..<Suc (Suc k)],
       socket_valid := True,
       reconnect_attempts := reconnect_attempts g + int (Suc k) + 1\<rparr>"
    unfolding u
    by (intro gateway.equality)
       (simp_all add: map_upt_Suc [of _ "Suc k"] algebra_simps del: upt_Suc)
  finally show ?case using step by simp
qed

lemma reconnect_loop_frame:
  "emitted (reconnect_loop env g) = emitted g \<and>
   should_reconnect (reconnect_loop env g) = should_reconnect g"
proof (induction env g rule: reconnect_loop.induct)
  case (1 env g)
  show ?case
  proof (cases "socket_valid g \<or> reconnect_attempts g > 5")
    case True
    then show ?thesis by (auto simp: reconnect_loop.simps [of env g])
  next
    case False
    with 1 show ?thesis by (simp add: reconnect_loop.simps [of env g] socket_call_def)
  qed
qed

lemma reconnect_loop_opens:
  "0 \<le> reconnect_attempts g \<Longrightarrow>
   length (socket_calls (reconnect_loop env g))
     \<le> length (socket_calls g) + nat (6 - reconnect_attempts g)"
proof (induction env g rule: reconnect_loop.induct)
  case (1 env g)
  show ?case
  proof (cases "socket_valid g \<or> reconnect_attempts g > 5")
    case True
    then show ?thesis by (auto simp: reconnect_loop.simps [of env g])
  next
    case False
    then have "nat (6 - reconnect_attempts g) = Suc (nat (5 - reconnect_attempts g))"
      by linarith
    with False 1 show ?thesis by (simp add: reconnect_loop.simps [of env g] socket_call_def)
  qed
qed

lemma reconnect_loop_invalid_resets:
  "\<not> socket_valid (reconnect_loop env g) \<Longrightarrow> reconnect_attempts (reconnect_loop env g) = 0"
proof (induction env g rule: reconnect_loop.induct)
  case (1 env g)
  show ?case
  proof (cases "socket_valid g \<or> reconnect_attempts g > 5")
    case True
    with "1.prems" show ?thesis by (auto simp: reconnect_loop.simps [of env g])
  next
    case False
    with 1 show ?thesis by (simp add: reconnect_loop.simps [of env g] socket_call_def)
  qed
qed

text \<open>
  Claim C7, as stated, fails: when every attempt to re-open the socket fails,
  \<open>process_disconnection\<close> on a fresh gateway makes six attempts (the test is
  \<open>self._reconnect_attempts > 5\<close>), then leaves the loop and returns normally. No
  exception is raised and no signal is emitted: nothing surfaces a fatal error.
\<close>

theorem process_disconnection_no_fatal_error:
  "fst (process_disconnection [] default_Gateway) = None \<and>
   emitted (snd (process_disconnection [] default_Gateway)) = [] \<and>
   socket_calls (snd (process_disconnection [] default_Gateway))
     = replicate 6 (SocketOpen ''irc-ws.chat.twitch.tv:443'') \<and>
   reconnect_attempts (snd (process_disconnection [] default_Gateway)) = 0"
proof -
  have d: "\<not> socket_valid default_Gateway" "reconnect_attempts default_Gateway = 6 - int 6"
    "should_reconnect default_Gateway" "socket_calls default_Gateway = []"
    "emitted default_Gateway = []"
    "url default_Gateway = ''irc-ws.chat.twitch.tv:443''"
    by (simp_all add: default_Gateway_def new_Gateway_def url_def format_val_def
          str_of_nat.simps)
  have "reconnect_loop [] default_Gateway =
          default_Gateway
            \<lparr>socket_calls := socket_calls default_Gateway
                 @ replicate 6 (SocketOpen (url default_Gateway)),
             timer_starts := timer_starts default_Gateway
                 @ map (\<lambda>i. max ((6 - int 6 + int i) * 5) 1) [0..<6],
             reconnect_attempts := 0\<rparr>"
    by (rule reconnect_loop_all_fail [OF d(1) _ d(2)]) simp_all
  then show ?thesis
    using d by (simp add: process_disconnection_def)
qed

text \<open>
  Claim C7, amended. With reconnection enabled, \<open>process_disconnection\<close> attempts to
  re-open the socket again and again while the socket is not valid. It stops at the
  first attempt after which the socket is valid, having made no attempt beyond it, and
  clears the reconnect flag; a socket that is valid at the start is not opened at all.
  When every attempt fails it stops once the attempt counter is above 5, that is after
  six failed attempts from a counter of zero; it then keeps the reconnect flag, sets the
  counter back to zero and returns. On every path it returns normally: no exception is
  raised and no signal is emitted. With reconnection disabled it does nothing.
\<close>

theorem process_disconnection_bounded:
  "fst (process_disconnection env g) = None \<and>
   emitted (snd (process_disconnection env g)) = emitted g \<and>
   (\<not> should_reconnect g \<longrightarrow> process_disconnection env g = (None, g)) \<and>
   (should_reconnect g \<and> socket_valid g \<longrightarrow>
      snd (process_disconnection env g) = g\<lparr>should_reconnect := False\<rparr>) \<and>
   (should_reconnect g \<and> \<not> socket_valid g \<and> reconnect_attempts g + int k \<le> 5 \<and>
    env = replicate k False @ True # rest \<longrightarrow>
      socket_calls (snd (process_disconnection env g))
        = socket_calls g @ replicate (Suc k) (SocketOpen (url g)) \<and>
      socket_valid (snd (process_disconnection env g)) \<and>
      \<not> should_reconnect (snd (process_disconnection env g))) \<and>
   (should_reconnect g \<and> \<not> socket_valid g \<and> reconnect_attempts g = 6 - int n \<and> n \<le> 6 \<and>
    (\<forall>v \<in> set (take n env). \<not> v) \<longrightarrow>
      socket_calls (snd (process_disconnection env g))
        = socket_calls g @ replicate n (SocketOpen (url g)) \<and>
      \<not> socket_valid (snd (process_disconnection env g)) \<and>
      should_reconnect (snd (process_disconnection env g)) \<and>
      reconnect_attempts (snd (process_disconnection env g)) = 0) \<and>
   (0 \<le> reconnect_attempts g \<longrightarrow>
      length (socket_calls (snd (process_disconnection env g)))
        \<le> length (socket_calls g) + nat (6 - reconnect_attempts g)) \<and>
   (should_reconnect g \<and> socket_valid (snd (process_disconnection env g)) \<longrightarrow>
      \<not> should_reconnect (snd (process_disconnection env g)))"
proof -
  have a: "fst (process_disconnection env g) = None"
    by (simp add: process_disconnection_def Let_def)
  have b: "emitted (snd (process_disconnection env g)) = emitted g"
    by (simp add: process_disconnection_def Let_def reconnect_loop_frame)
  have c: "\<not> should_reconnect g \<longrightarrow> process_disconnection env g = (None, g)"
    by (simp add: process_disconnection_def)
  have d: "should_reconnect g \<and> socket_valid g \<longrightarrow>
      snd (process_disconnection env g) = g\<lparr>should_reconnect := False\<rparr>"
    by (simp add: process_disconnection_def reconnect_loop.simps [of env g])
  have e: "should_reconnect g \<and> \<not> socket_valid g \<and> reconnect_attempts g + int k \<le> 5 \<and>
    env = replicate k False @ True # rest \<longrightarrow>
      socket_calls (snd (process_disconnection env g))
        = socket_calls g @ replicate (Suc k) (SocketOpen (url g)) \<and>
      socket_valid (snd (process_disconnection env g)) \<and>
      \<not> should_reconnect (snd (process_disconnection env g))"
  proof (intro impI, elim conjE)
    assume h: "should_reconnect g" "\<not> socket_valid g" "reconnect_attempts g + int k \<le> 5"
      "env = replicate k False @ True # rest"
    show "socket_calls (snd (process_disconnection env g))
        = socket_calls g @ replicate (Suc k) (SocketOpen (url g)) \<and>
      socket_valid (snd (process_disconnection env g)) \<and>
      \<not> should_reconnect (snd (process_disconnection env g))"
      using h(1)
      by (simp add: process_disconnection_def reconnect_loop_succeeds [OF h(2) h(4) h(3)])
  qed
  have f: "should_reconnect g \<and> \<not> socket_valid g \<and> reconnect_attempts g = 6 - int n \<and> n \<le> 6 \<and>
    (\<forall>v \<in> set (take n env). \<not> v) \<longrightarrow>
      socket_calls (snd (process_disconnection env g))
        = socket_calls g @ replicate n (SocketOpen (url g)) \<and>
      \<not> socket_valid (snd (process_disconnection env g)) \<and>
      should_reconnect (snd (process_disconnection env g)) \<and>
      reconnect_attempts (snd (process_disconnection env g)) = 0"
  proof (intro impI, elim conjE)
    assume h: "should_reconnect g" "\<not> socket_valid g" "reconnect_attempts g = 6 - int n"
      "n \<le> 6" "\<forall>v \<in> set (take n env). \<not> v"
    show "socket_calls (snd (process_disconnection env g))
        = socket_calls g @ replicate n (SocketOpen (url g)) \<and>
      \<not> socket_valid (snd (process_disconnection env g)) \<and>
      should_reconnect (snd (process_disconnection env g)) \<and>
      reconnect_attempts (snd (process_disconnection env g)) = 0"
      using h(1,2)
      by (simp add: process_disconnection_def reconnect_loop_all_fail [OF h(2) h(5) h(3) h(4)])
  qed
  have i: "0 \<le> reconnect_attempts g \<longrightarrow>
      length (socket_calls (snd (process_disconnection env g)))
        \<le> length (socket_calls g) + nat (6 - reconnect_attempts g)"
    using reconnect_loop_opens [of g env] by (simp add: process_disconnection_def Let_def)
  have j: "should_reconnect g \<and> socket_valid (snd (process_disconnection env g)) \<longrightarrow>
      \<not> should_reconnect (snd (process_disconnection env g))"
    by (simp add: process_disconnection_def Let_def)
  from a b c d e f i j show ?thesis by blast
qed

text \<open>
  On a fresh gateway: when the third attempt succeeds, three attempts are made and the
  reconnect flag is cleared; when no attempt succeeds, six are made, the flag stays and
  the counter is zero again; on a socket that is valid already no attempt is made.
\<close>

theorem process_disconnection_bounded_witness:
  "length (socket_calls (snd (process_disconnection [False, False, True] default_Gateway))) = 3 \<and>
   socket_valid (snd (process_disconnection [False, False, True] default_Gateway)) \<and>
   \<not> should_reconnect (snd (process_disconnection [False, False, True] default_Gateway)) \<and>
   fst (process_disconnection [] default_Gateway) = None \<and>
   length (socket_calls (snd (process_disconnection [] default_Gateway))) = 6 \<and>
   should_reconnect (snd (process_disconnection [] default_Gateway)) \<and>
   reconnect_attempts (snd (process_disconnection [] default_Gateway)) = 0 \<and>
   socket_calls (snd (process_disconnection [] (default_Gateway\<lparr>socket_valid := True\<rparr>))) = [] \<and>
   process_disconnection [] (default_Gateway\<lparr>should_reconnect := False\<rparr>)
     = (None, default_Gateway\<lparr>should_reconnect := False\<rparr>)"
proof -
  have d: "\<not> socket_valid default_Gateway" "reconnect_attempts default_Gateway = 0"
    "should_reconnect default_Gateway" "socket_calls default_Gateway = []"
    by (simp_all add: default_Gateway_def new_Gateway_def)
  note s = process_disconnection_bounded
    [of "[False, False, True]" default_Gateway "Suc (Suc 0)" "[]" 0]
  note f = process_disconnection_bounded [of "[]" default_Gateway 0 "[]" 6]
  note v = process_disconnection_bounded
    [of "[]" "default_Gateway\<lparr>socket_valid := True\<rparr>" 0 "[]" 0]
  note o = process_disconnection_bounded
    [of "[]" "default_Gateway\<lparr>should_reconnect := False\<rparr>" 0 "[]" 0]
  have "socket_calls (snd (process_disconnection [False, False, True] default_Gateway))
          = socket_calls default_Gateway
            @ replicate (Suc (Suc (Suc 0))) (SocketOpen (url default_Gateway)) \<and>
        socket_valid (snd (process_disconnection [False, False, True] default_Gateway)) \<and>
        \<not> should_reconnect (snd (process_disconnection [False, False, True] default_Gateway))"
    using s d by simp
  then have s3: "length (socket_calls (snd (process_disconnection [False, False, True] default_Gateway))) = 3"
    "socket_valid (snd (process_disconnection [False, False, True] default_Gateway))"
    "\<not> should_reconnect (snd (process_disconnection [False, False, True] default_Gateway))"
    by (simp_all add: d)
  have "socket_calls (snd (process_disconnection [] default_Gateway))
          = socket_calls default_Gateway @ replicate 6 (SocketOpen (url default_Gateway)) \<and>
        \<not> socket_valid (snd (process_disconnection [] default_Gateway)) \<and>
        should_reconnect (snd (process_disconnection [] default_Gateway)) \<and>
        reconnect_attempts (snd (process_disconnection [] default_Gateway)) = 0"
    using f d by simp
  then have f6: "length (socket_calls (snd (process_disconnection [] default_Gateway))) = 6"
    "should_reconnect (snd (process_disconnection [] default_Gateway))"
    "reconnect_attempts (snd (process_disconnection [] default_Gateway)) = 0"
    by (simp_all add: d)
  have n: "fst (process_disconnection [] default_Gateway) = None"
    using f by blast
  have "snd (process_disconnection [] (default_Gateway\<lparr>socket_valid := True\<rparr>))
          = default_Gateway\<lparr>socket_valid := True, should_reconnect := False\<rparr>"
    using v d by simp
  then have v0: "socket_calls (snd (process_disconnection [] (default_Gateway\<lparr>socket_valid := True\<rparr>))) = []"
    by (simp add: d)
  have o0: "process_disconnection [] (default_Gateway\<lparr>should_reconnect := False\<rparr>)
     = (None, default_Gateway\<lparr>should_reconnect := False\<rparr>)"
    using o by simp
  from s3 f6 n v0 o0 show ?thesis by simp
qed

section \<open>Whispers\<close>

lemma length_whisper_recipients: "length whisper_recipients = 41"
  by (simp add: whisper_recipients_def)

lemma distinct_whisper_recipients: "distinct whisper_recipients"
  unfolding whisper_recipients_def
  by (simp add: distinct_map inj_on_def)

lemma send_whisper_message_records:
  assumes "whispered_accounts g = PyList accs"
    and "whispers_this_minute g < whisper_minute_limit g"
  shows "whispered_accounts (snd (send_whisper_message user content g))
           = PyList (if user \<notin> set accs then accs @ [user] else accs) \<and>
         whispers_this_minute (snd (send_whisper_message user content g))
           = whispers_this_minute g + 1 \<and>
         whisper_minute_limit (snd (send_whisper_message user content g))
           = whisper_minute_limit g \<and>
         whisper_accounts_limit (snd (send_whisper_message user content g))
           = whisper_accounts_limit g"
  using assms
  by (simp add: send_whisper_message_def can_whisper_def wait_for_whisper_def
        wait_for_signal_def reset_whisper_seconds_def increment_whisper_def
        send_raw_message_limited wait_and_increment_join_def reset_join_limit_def emit_def
        singleShot_def Let_def)

lemma run_whispers:
  "whispered_accounts g = PyList accs \<Longrightarrow>
   whispers_this_minute g + int (length us) \<le> whisper_minute_limit g \<Longrightarrow>
   distinct (accs @ us) \<Longrightarrow>
   whispered_accounts (run (map (\<lambda>u. SendWhisperMessage u content) us) g) = PyList (accs @ us) \<and>
   whisper_accounts_limit (run (map (\<lambda>u. SendWhisperMessage u content) us) g)
     = whisper_accounts_limit g"
proof (induction us arbitrary: g accs)
  case Nil
  then show ?case by (simp add: run_def)
next
  case (Cons u us)
  let ?g = "snd (send_whisper_message u content g)"
  have lt: "whispers_this_minute g < whisper_minute_limit g"
    using Cons.prems(2) by simp
  note r = send_whisper_message_records [OF Cons.prems(1) lt, of u content]
  have "u \<notin> set accs" using Cons.prems(3) by auto
  with r have acc: "whispered_accounts ?g = PyList (accs @ [u])" by simp
  have "whispered_accounts (run (map (\<lambda>u. SendWhisperMessage u content) us) ?g)
          = PyList ((accs @ [u]) @ us) \<and>
        whisper_accounts_limit (run (map (\<lambda>u. SendWhisperMessage u content) us) ?g)
          = whisper_accounts_limit ?g"
  proof (rule Cons.IH [OF acc])
    show "whispers_this_minute ?g + int (length us) \<le> whisper_minute_limit ?g"
      using r Cons.prems(2) by simp
    show "distinct ((accs @ [u]) @ us)" using Cons.prems(3) by simp
  qed
  then show ?case using r by (simp add: run_def)
qed

text \<open>
  Claim C3 says that the list of whispered accounts never holds more than 40 names. On
  the code it does: \<open>send_whisper_message\<close> calls \<open>wait_for_whisper()\<close> without
  \<open>include_accounts\<close>, so the wait for the reset of the accounts is never entered, and
  \<open>increment_whisper\<close> appends every new recipient. Forty-one whispers to forty-one
  different recipients on a fresh gateway leave all forty-one in the list, with the
  limit still at 40.
\<close>

theorem whispered_accounts_exceed_limit:
  "whispered_accounts
     (run (map (\<lambda>u. SendWhisperMessage u ''hi'') whisper_recipients) default_Gateway)
     = PyList whisper_recipients \<and>
   distinct whisper_recipients \<and> length whisper_recipients = 41 \<and>
   whisper_accounts_limit
     (run (map (\<lambda>u. SendWhisperMessage u ''hi'') whisper_recipients) default_Gateway) = 40"
proof -
  have d: "whispered_accounts default_Gateway = PyList []"
    "whispers_this_minute default_Gateway = 0" "whisper_minute_limit default_Gateway = 200"
    "whisper_accounts_limit default_Gateway = 40"
    by (simp_all add: default_Gateway_def new_Gateway_def)
  have "whispered_accounts
          (run (map (\<lambda>u. SendWhisperMessage u ''hi'') whisper_recipients) default_Gateway)
          = PyList ([] @ whisper_recipients) \<and>
        whisper_accounts_limit
          (run (map (\<lambda>u. SendWhisperMessage u ''hi'') whisper_recipients) default_Gateway)
          = whisper_accounts_limit default_Gateway"
    by (rule run_whispers [OF d(1)])
       (simp_all add: d length_whisper_recipients distinct_whisper_recipients)
  then show ?thesis
    by (simp add: d length_whisper_recipients distinct_whisper_recipients)
qed

text \<open>
  Claim C4 says that the list of whispered accounts is cleared only once the daily
  deadline has passed, by no other operation, and that it is an empty collection
  afterwards. On the code, with the clock at day 10 and one account whispered:
  \<^item> a deadline that passed a microsecond ago: \<open>reset_whisper_daily\<close> returns at
    \<open>if dif.days <= 0\<close> and clears nothing;
  \<^item> a deadline two days ahead: \<open>reset_whisper_daily\<close> replaces the list by the integer
    0 and moves the deadline to day 11, a day earlier;
  \<^item> \<open>reset_whisper_minutes\<close> replaces the list by 0 as well;
  \<^item> the next \<open>send_whisper_message\<close> raises TypeError at its membership test.
\<close>

theorem whisper_daily_reset_misfires:
  "whispered_accounts
     (run [TimePasses 864000000000, SendWhisperMessage ''alice'' ''hi'', ResetWhisperDaily False]
        (new_Gateway ''bot'' ''foobar'' (Some 863999999999))) = PyList [''alice''] \<and>
   whispered_accounts
     (run [TimePasses 864000000000, SendWhisperMessage ''alice'' ''hi'', ResetWhisperDaily False]
        (new_Gateway ''bot'' ''foobar'' (Some 1036800000000))) = PyInt 0 \<and>
   whisper_reset
     (run [TimePasses 864000000000, SendWhisperMessage ''alice'' ''hi'', ResetWhisperDaily False]
        (new_Gateway ''bot'' ''foobar'' (Some 1036800000000))) = Some 950400000000 \<and>
   whispered_accounts
     (run [TimePasses 864000000000, SendWhisperMessage ''alice'' ''hi'', ResetWhisperMinutes False]
        (new_Gateway ''bot'' ''foobar'' (Some 1036800000000))) = PyInt 0 \<and>
   fst (send_whisper_message ''bob'' ''hi''
     (run [TimePasses 864000000000, SendWhisperMessage ''alice'' ''hi'', ResetWhisperDaily False]
        (new_Gateway ''bot'' ''foobar'' (Some 1036800000000)))) = Some TypeError"
  by (simp add: run_def new_Gateway_def send_whisper_message_def can_whisper_def
        increment_whisper_def send_raw_message_limited wait_and_increment_join_def
        reset_whisper_daily_def reset_whisper_minutes_def clear_whisper_accounts_def
        days_between_def one_day_def emit_def singleShot_def startswith_def Let_def)

section \<open>The parser\<close>

text \<open>
  No member of \<open>Parser\<close> passes the two tests of the loop, so the loop runs to its end
  and \<open>parse\<close> raises the ValueError after it, whatever the command is.
\<close>

lemma dispatch_members:
  "groups ''command'' = Some c \<Longrightarrow>
   dispatch getmembers_Parser groups
     = Inl (ValueError (''No parser found for command '' @ format_val c))"
  by (simp add: getmembers_Parser_def startswith_def item_def and_then_def)

lemma dispatch_groupdict:
  "dispatch getmembers_Parser (groupdict caps)
     = Inl (ValueError (''No parser found for command '' @
              format_val (case caps ''command'' of None \<Rightarrow> PNone | Some s \<Rightarrow> PStr s)))"
  by (rule dispatch_members) (simp add: groupdict_def)

lemma parse_never_returns: "parse message \<noteq> Inr m"
  by (simp add: parse_def Let_def and_then_def dispatch_groupdict
        split: option.splits sum.splits)

lemma parse_with_tags:
  assumes "PATTERN_match message = Some caps" "caps ''tags'' = Some t" "caps ''command'' = Some tok"
  shows "parse message = Inl (ValueError (''No parser found for command '' @ tok))"
proof -
  have tags: "groupdict caps ''tags'' = Some (PStr t)"
    using assms(2) by (simp add: groupdict_def)
  then have dom: "''tags'' \<in> dom (groupdict caps)"
    by blast
  have "\<exists>m. extract_tags (groupdict caps) Map.empty = Inr m"
    using tags by (simp add: extract_tags_def item_def str_method_def and_then_def)
  then obtain m where m: "extract_tags (groupdict caps) Map.empty = Inr m" ..
  show ?thesis
    using assms(1,3) dom m
    by (simp add: parse_def Let_def and_then_def dispatch_groupdict format_val_def)
qed

lemma parse_without_tags:
  assumes "PATTERN_match message = Some caps" "caps ''tags'' = None"
  shows "parse message = Inl AttributeError"
proof -
  have tags: "groupdict caps ''tags'' = Some PNone"
    using assms(2) by (simp add: groupdict_def)
  then have dom: "''tags'' \<in> dom (groupdict caps)"
    by blast
  have m: "extract_tags (groupdict caps) Map.empty = Inl AttributeError"
    using tags by (simp add: extract_tags_def item_def str_method_def and_then_def)
  show ?thesis
    using assms(1) dom m by (simp add: parse_def Let_def and_then_def)
qed

lemma match_join_line:
  "PATTERN_match '':nick!user@host JOIN #foo'' =
     Some [''prefix'' \<mapsto> ''nick!user@host'', ''command'' \<mapsto> ''JOIN'', ''params'' \<mapsto> ''#foo'']"
  by (simp add: PATTERN_match_def PATTERN_def is_word_def is_digit_def)

lemma match_join_line_crlf:
  "PATTERN_match ('':nick!user@host JOIN #foo'' @ CRLF) =
     Some [''prefix'' \<mapsto> ''nick!user@host'', ''command'' \<mapsto> ''JOIN'',
           ''params'' \<mapsto> ''#foo'' @ [CHR 0x0D]]"
  by (simp add: PATTERN_match_def PATTERN_def is_word_def is_digit_def CRLF_def)

lemma match_tagged_join_line:
  "PATTERN_match ''@k=v :nick!user@host JOIN #foo'' =
     Some [''tags'' \<mapsto> ''k=v'', ''prefix'' \<mapsto> ''nick!user@host'', ''command'' \<mapsto> ''JOIN'',
           ''params'' \<mapsto> ''#foo'']"
  by (simp add: PATTERN_match_def PATTERN_def is_word_def is_digit_def)

lemma match_tagged_welcome_line:
  "PATTERN_match ''@k=v :tmi.twitch.tv 001 nick :Welcome, GLHF!'' =
     Some [''tags'' \<mapsto> ''k=v'', ''prefix'' \<mapsto> ''tmi.twitch.tv'', ''command'' \<mapsto> ''001'',
           ''params'' \<mapsto> ''nick :Welcome, GLHF!'']"
  by (simp add: PATTERN_match_def PATTERN_def is_word_def is_digit_def)

lemma match_cap_line:
  "PATTERN_match '':tmi.twitch.tv CAP * ACK :twitch.tv/tags'' =
     Some [''prefix'' \<mapsto> ''tmi.twitch.tv'', ''command'' \<mapsto> ''CAP'',
           ''params'' \<mapsto> ''* ACK :twitch.tv/tags'']"
  by (simp add: PATTERN_match_def PATTERN_def is_word_def is_digit_def)

lemma match_privmsg_line:
  "PATTERN_match ('':tmi.twitch.tv PRIVMSG #foo :hi'' @ CRLF) =
     Some [''prefix'' \<mapsto> ''tmi.twitch.tv'', ''command'' \<mapsto> ''PRIVMSG'',
           ''params'' \<mapsto> ''#foo :hi'' @ [CHR 0x0D]]"
  by (simp add: PATTERN_match_def PATTERN_def is_word_def is_digit_def CRLF_def)

lemma match_tagged_privmsg_line:
  "PATTERN_match ''@k=v :tmi.twitch.tv PRIVMSG #foo :hi'' =
     Some [''tags'' \<mapsto> ''k=v'', ''prefix'' \<mapsto> ''tmi.twitch.tv'', ''command'' \<mapsto> ''PRIVMSG'',
           ''params'' \<mapsto> ''#foo :hi'']"
  by (simp add: PATTERN_match_def PATTERN_def is_word_def is_digit_def)

lemma match_tagged_foo_line:
  "PATTERN_match ''@k=v :tmi.twitch.tv FOO bar'' =
     Some [''tags'' \<mapsto> ''k=v'', ''prefix'' \<mapsto> ''tmi.twitch.tv'', ''command'' \<mapsto> ''FOO'',
           ''params'' \<mapsto> ''bar'']"
  by (simp add: PATTERN_match_def PATTERN_def is_word_def is_digit_def)

lemma match_tagged_999_line:
  "PATTERN_match ''@k=v :tmi.twitch.tv 999 nick :x'' =
     Some [''tags'' \<mapsto> ''k=v'', ''prefix'' \<mapsto> ''tmi.twitch.tv'', ''command'' \<mapsto> ''999'',
           ''params'' \<mapsto> ''nick :x'']"
  by (simp add: PATTERN_match_def PATTERN_def is_word_def is_digit_def)

text \<open>
  Claim C1 says that \<open>Parser.parse\<close> turns a JOIN line with the prefix
  \<open>nick!user@host\<close> and the parameter \<open>#foo\<close> into a join event for the user
  \<open>nick\<close> and the channel \<open>foo\<close>, and that numeric codes go through \<open>LOOKUP\<close>.
  On the code, \<open>parse\<close> returns no event for any line:
  \<^item> the JOIN line without a tag block raises AttributeError while the tags are read;
  \<^item> the JOIN line with a tag block raises ValueError "No parser found for command
    JOIN": every handler is a class method, which \<open>inspect.isfunction\<close> rejects (and the
    name tested would be \<open>parse_JOIN\<close>, not \<open>parse_join\<close>);
  \<^item> the numeric line 001 raises ValueError for the command 001: \<open>LOOKUP\<close> is never
    read;
  \<^item> \<open>parse_join\<close> itself, called on the groups of the JOIN line, raises TypeError in
    the constructor of \<open>JoinMessage\<close>.
\<close>

theorem parse_join_line_fails:
  "parse '':nick!user@host JOIN #foo'' = Inl AttributeError \<and>
   parse ('':nick!user@host JOIN #foo'' @ CRLF) = Inl AttributeError \<and>
   parse ''@k=v :nick!user@host JOIN #foo''
     = Inl (ValueError ''No parser found for command JOIN'') \<and>
   parse ''@k=v :tmi.twitch.tv 001 nick :Welcome, GLHF!''
     = Inl (ValueError ''No parser found for command 001'') \<and>
   parse_join (groupdict [''prefix'' \<mapsto> ''nick!user@host'', ''command'' \<mapsto> ''JOIN'',
                          ''params'' \<mapsto> ''#foo'']) = Inl TypeError \<and>
   parse message \<noteq> Inr m"
proof -
  have "parse '':nick!user@host JOIN #foo'' = Inl AttributeError"
    by (rule parse_without_tags [OF match_join_line]) simp
  moreover have "parse ('':nick!user@host JOIN #foo'' @ CRLF) = Inl AttributeError"
    by (rule parse_without_tags [OF match_join_line_crlf]) simp
  moreover have "parse ''@k=v :nick!user@host JOIN #foo''
     = Inl (ValueError (''No parser found for command '' @ ''JOIN''))"
    by (rule parse_with_tags [OF match_tagged_join_line]) simp_all
  moreover have "parse ''@k=v :tmi.twitch.tv 001 nick :Welcome, GLHF!''
     = Inl (ValueError (''No parser found for command '' @ ''001''))"
    by (rule parse_with_tags [OF match_tagged_welcome_line]) simp_all
  moreover have "parse_join (groupdict [''prefix'' \<mapsto> ''nick!user@host'', ''command'' \<mapsto> ''JOIN'',
                          ''params'' \<mapsto> ''#foo'']) = Inl TypeError"
    by (simp add: parse_join_def groupdict_def item_def str_method_def str_subscript_def
          and_then_def new_JoinMessage_def SystemMessage_init_def)
  ultimately show ?thesis
    using parse_never_returns [of message m] by simp
qed

text \<open>
  Claim C9 says that a line without the optional tag block is parsed like any other,
  with an empty tag mapping, and fails on the grammar-error path only. On the code,
  every line that matches the pattern without a tag block raises AttributeError:
  \<open>groupdict()\<close> holds the key \<open>tags\<close> with the value \<open>None\<close>, the test
  \<open>'tags' in c\<close> is true, and \<open>_extract_tags\<close> calls \<open>None.split\<close>. The same line
  with a tag block gets past the tags, to the dispatch.
\<close>

theorem parse_without_tag_block_raises:
  "parse '':tmi.twitch.tv CAP * ACK :twitch.tv/tags'' = Inl AttributeError \<and>
   parse ('':tmi.twitch.tv PRIVMSG #foo :hi'' @ CRLF) = Inl AttributeError \<and>
   parse ''@k=v :tmi.twitch.tv PRIVMSG #foo :hi''
     = Inl (ValueError ''No parser found for command PRIVMSG'')"
proof -
  have "parse '':tmi.twitch.tv CAP * ACK :twitch.tv/tags'' = Inl AttributeError"
    by (rule parse_without_tags [OF match_cap_line]) simp
  moreover have "parse ('':tmi.twitch.tv PRIVMSG #foo :hi'' @ CRLF) = Inl AttributeError"
    by (rule parse_without_tags [OF match_privmsg_line]) simp
  moreover have "parse ''@k=v :tmi.twitch.tv PRIVMSG #foo :hi''
     = Inl (ValueError (''No parser found for command '' @ ''PRIVMSG''))"
    by (rule parse_with_tags [OF match_tagged_privmsg_line]) simp_all
  ultimately show ?thesis by simp
qed

text \<open>
  Claim C5, as stated, fails: for a line with a command that has no handler, \<open>parse\<close>
  returns no "unrecognized command" event but raises ValueError.
\<close>

theorem parse_unknown_command_raises:
  "parse ''@k=v :tmi.twitch.tv FOO bar'' = Inl (ValueError ''No parser found for command FOO'')"
proof -
  have "parse ''@k=v :tmi.twitch.tv FOO bar''
     = Inl (ValueError (''No parser found for command '' @ ''FOO''))"
    by (rule parse_with_tags [OF match_tagged_foo_line]) simp_all
  then show ?thesis by simp
qed

text \<open>
  Claim C5, amended. For every line that matches the pattern with a tag block and whose
  command token has no handler, \<open>Parser.parse\<close> raises ValueError with the message
  "No parser found for command" followed by the command token as it stands in the
  line; no event is returned.
\<close>

theorem parse_unmatched_command:
  assumes "PATTERN_match message = Some caps"
    and "caps ''tags'' = Some t"
    and "caps ''command'' = Some tok"
    and "\<not> known_command tok"
  shows "parse message = Inl (ValueError (''No parser found for command '' @ tok))"
  by (rule parse_with_tags [OF assms(1,2,3)])

theorem parse_unmatched_command_witness:
  "parse ''@k=v :tmi.twitch.tv 999 nick :x''
     = Inl (ValueError ''No parser found for command 999'')"
proof -
  have k: "\<not> known_command ''999''"
    by (simp add: known_command_def handler_names_def getmembers_Parser_def startswith_def
          lower_def lower_char_def isdigit_def is_digit_def int_of_str_def digit_val_def
          LOOKUP_def)
  have "parse ''@k=v :tmi.twitch.tv 999 nick :x''
     = Inl (ValueError (''No parser found for command '' @ ''999''))"
    by (rule parse_unmatched_command [OF match_tagged_999_line _ _ k]) simp_all
  then show ?thesis by simp
qed

end
